theory Spec2Isabelle
  imports Main "HOL-Library.Sublist" "HOL-Library.AList"
begin

section \<open>Decoded JSON payloads and the Python operations used on them\<close>

text \<open>
  Every constructor of \<^verbatim>\<open>weverse.objects\<close> receives one decoded JSON value. A decoded
  value is \<^verbatim>\<open>None\<close>, a \<^verbatim>\<open>bool\<close>, an \<^verbatim>\<open>int\<close>, a \<^verbatim>\<open>str\<close>, a \<^verbatim>\<open>list\<close> or a \<^verbatim>\<open>dict\<close>
  with string keys. A \<^verbatim>\<open>dict\<close> keeps its keys in insertion order, so it is an association
  list; a decoded \<^verbatim>\<open>dict\<close> never holds a key twice. Non-integral numbers are left out of the
  model: no operation of the package computes with a number.
\<close>

datatype json =
    JNull
  | JBool bool
  | JInt int
  | JStr string
  | JList "json list"
  | JObj "(string \<times> json) list"

text \<open>The exceptions the package can raise, with the key a \<^verbatim>\<open>KeyError\<close> carries.\<close>

datatype error =
    KeyError string
  | TypeError
  | AttributeError
  | NotImplementedError

text \<open>Sequencing of statements that may raise: the first exception ends the evaluation.\<close>

definition bindE :: "error + 'a \<Rightarrow> ('a \<Rightarrow> error + 'b) \<Rightarrow> error + 'b" where
  "bindE m f = (case m of Inl e \<Rightarrow> Inl e | Inr x \<Rightarrow> f x)"

text \<open>\<^verbatim>\<open>d[k]\<close> with a string key: a \<^verbatim>\<open>KeyError\<close> naming the key on a \<^verbatim>\<open>dict\<close> without it, a
  \<^verbatim>\<open>TypeError\<close> on every other decoded value.\<close>

fun subscript :: "json \<Rightarrow> string \<Rightarrow> error + json" where
  "subscript (JObj kvs) k = (case map_of kvs k of None \<Rightarrow> Inl (KeyError k) | Some v \<Rightarrow> Inr v)"
| "subscript _ k = Inl TypeError"

text \<open>\<^verbatim>\<open>d[k1][k2]\<close>.\<close>

definition subscript2 :: "json \<Rightarrow> string \<Rightarrow> string \<Rightarrow> error + json" where
  "subscript2 d k1 k2 = bindE (subscript d k1) (\<lambda>x. subscript x k2)"

text \<open>\<^verbatim>\<open>d.get(k)\<close>: \<^verbatim>\<open>None\<close> for a missing key; only a \<^verbatim>\<open>dict\<close> has the method.\<close>

fun get :: "json \<Rightarrow> string \<Rightarrow> error + json" where
  "get (JObj kvs) k = Inr (case map_of kvs k of None \<Rightarrow> JNull | Some v \<Rightarrow> v)"
| "get _ k = Inl AttributeError"

text \<open>\<^verbatim>\<open>d.values()\<close>: the values in key-insertion order.\<close>

fun values_of :: "json \<Rightarrow> error + json list" where
  "values_of (JObj kvs) = Inr (map snd kvs)"
| "values_of _ = Inl AttributeError"

text \<open>Truth value of a decoded value, as \<^verbatim>\<open>if x\<close> and \<^verbatim>\<open>not x\<close> test it.\<close>

fun truthy :: "json \<Rightarrow> bool" where
  "truthy JNull = False"
| "truthy (JBool b) = b"
| "truthy (JInt i) = (i \<noteq> 0)"
| "truthy (JStr s) = (s \<noteq> [])"
| "truthy (JList xs) = (xs \<noteq> [])"
| "truthy (JObj kvs) = (kvs \<noteq> [])"

text \<open>\<^verbatim>\<open>x == y\<close> on decoded values: \<^verbatim>\<open>bool\<close> is a subclass of \<^verbatim>\<open>int\<close> (\<^verbatim>\<open>True == 1\<close>), lists
  compare elementwise, dictionaries compare as mappings, values of unrelated types differ.\<close>

fun py_eq_val :: "json \<Rightarrow> json \<Rightarrow> bool" where
  "py_eq_val JNull JNull = True"
| "py_eq_val (JBool a) (JBool b) = (a = b)"
| "py_eq_val (JBool a) (JInt j) = ((if a then 1 else 0) = j)"
| "py_eq_val (JInt i) (JBool b) = (i = (if b then 1 else 0))"
| "py_eq_val (JInt i) (JInt j) = (i = j)"
| "py_eq_val (JStr s) (JStr t) = (s = t)"
| "py_eq_val (JList xs) (JList ys) = list_all2 (\<lambda>x y. py_eq_val x y) xs ys"
| "py_eq_val (JObj xs) (JObj ys) =
     (length xs = length ys \<and>
      list_all (\<lambda>kv. case map_of ys (fst kv) of None \<Rightarrow> False | Some w \<Rightarrow> py_eq_val (snd kv) w) xs)"
| "py_eq_val _ _ = False"

text \<open>\<^verbatim>\<open>k in d\<close> for a string \<^verbatim>\<open>k\<close>: key membership on a \<^verbatim>\<open>dict\<close>, element membership on a
  \<^verbatim>\<open>list\<close>, substring test on a \<^verbatim>\<open>str\<close>, a \<^verbatim>\<open>TypeError\<close> on the values that are not
  containers.\<close>

fun contains :: "string \<Rightarrow> json \<Rightarrow> error + bool" where
  "contains k (JObj kvs) = Inr (map_of kvs k \<noteq> None)"
| "contains k (JList xs) = Inr (list_ex (\<lambda>x. py_eq_val x (JStr k)) xs)"
| "contains k (JStr s) = Inr (sublist k s)"
| "contains k _ = Inl TypeError"

text \<open>A list comprehension \<^verbatim>\<open>[f(x) for x in xs]\<close> whose body may raise.\<close>

fun mapE :: "('a \<Rightarrow> error + 'b) \<Rightarrow> 'a list \<Rightarrow> error + 'b list" where
  "mapE f [] = Inr []"
| "mapE f (x # xs) = bindE (f x) (\<lambda>y. bindE (mapE f xs) (\<lambda>ys. Inr (y # ys)))"

text \<open>\<^verbatim>\<open>str(x)\<close> for an object whose class defines \<^verbatim>\<open>__str__\<close>: the method's result is
  returned when it is a \<^verbatim>\<open>str\<close>, and \<^verbatim>\<open>TypeError\<close> is raised when it is anything else.\<close>

fun str_result :: "json \<Rightarrow> error + string" where
  "str_result (JStr s) = Inr s"
| "str_result _ = Inl TypeError"

text \<open>The decimal digits of a natural number, and \<^verbatim>\<open>str\<close> of an \<^verbatim>\<open>int\<close>.\<close>

definition digit :: "nat \<Rightarrow> char" where
  "digit n = ''0123456789'' ! n"

fun decimal :: "nat \<Rightarrow> string" where
  "decimal n = (if n < 10 then [digit n] else decimal (n div 10) @ [digit (n mod 10)])"

declare decimal.simps [simp del]

definition str_int :: "int \<Rightarrow> string" where
  "str_int i = (if i < 0 then CHR ''-'' # decimal (nat (- i)) else decimal (nat i))"

text \<open>A replacement field \<^verbatim>\<open>{v}\<close> of an f-string: the text of \<^verbatim>\<open>str(v)\<close>. A \<^verbatim>\<open>list\<close> or a
  \<^verbatim>\<open>dict\<close> prints as its \<^verbatim>\<open>repr\<close>, which is the parameter \<open>container_repr\<close>.\<close>

fun format_value :: "(json \<Rightarrow> string) \<Rightarrow> json \<Rightarrow> string" where
  "format_value container_repr JNull = ''None''"
| "format_value container_repr (JBool b) = (if b then ''True'' else ''False'')"
| "format_value container_repr (JInt i) = str_int i"
| "format_value container_repr (JStr s) = s"
| "format_value container_repr (JList xs) = container_repr (JList xs)"
| "format_value container_repr (JObj kvs) = container_repr (JObj kvs)"

section \<open>Attachments (\<^verbatim>\<open>attachment.py\<close>)\<close>

record Photo =
  data :: json
  id :: json
  url :: json
  height :: json
  width :: json

definition Photo_init :: "json \<Rightarrow> error + Photo" where
  "Photo_init d =
     bindE (subscript d ''photoId'') (\<lambda>i.
     bindE (subscript d ''url'') (\<lambda>u.
     bindE (subscript d ''height'') (\<lambda>h.
     bindE (subscript d ''width'') (\<lambda>w.
     Inr \<lparr>Photo.data = d, Photo.id = i, Photo.url = u, Photo.height = h, Photo.width = w\<rparr>))))"

text \<open>\<^verbatim>\<open>str(photo)\<close>: \<^verbatim>\<open>Photo.__str__\<close> returns \<^verbatim>\<open>self.url\<close>.\<close>

definition Photo_str :: "Photo \<Rightarrow> error + string" where
  "Photo_str self = str_result (Photo.url self)"

record Video =
  data :: json
  id :: json
  duration :: json
  height :: json
  width :: json
  thumbnail_url :: json

definition Video_init :: "json \<Rightarrow> error + Video" where
  "Video_init d =
     bindE (subscript d ''videoId'') (\<lambda>i.
     bindE (subscript2 d ''uploadInfo'' ''playTime'') (\<lambda>t.
     bindE (subscript2 d ''uploadInfo'' ''height'') (\<lambda>h.
     bindE (subscript2 d ''uploadInfo'' ''width'') (\<lambda>w.
     bindE (subscript2 d ''uploadInfo'' ''imageUrl'') (\<lambda>u.
     Inr \<lparr>Video.data = d, Video.id = i, Video.duration = t, Video.height = h,
          Video.width = w, Video.thumbnail_url = u\<rparr>)))))"

text \<open>\<^verbatim>\<open>Video\<close> defines \<^verbatim>\<open>__repr__\<close> and no \<^verbatim>\<open>__str__\<close>: \<^verbatim>\<open>str(video)\<close> is \<^verbatim>\<open>object.__str__\<close>,
  which returns \<^verbatim>\<open>repr(video)\<close>, the f-string
  \<^verbatim>\<open>f"Video video_id={self.id}, duration={self.duration}"\<close>.\<close>

definition Video_repr :: "(json \<Rightarrow> string) \<Rightarrow> Video \<Rightarrow> string" where
  "Video_repr container_repr self =
     ''Video video_id='' @ format_value container_repr (Video.id self) @
     '', duration='' @ format_value container_repr (Video.duration self)"

definition Video_str :: "(json \<Rightarrow> string) \<Rightarrow> Video \<Rightarrow> error + string" where
  "Video_str container_repr self = Inr (Video_repr container_repr self)"

record Snippet =
  data :: json
  id :: json
  url :: json
  title :: json
  description :: json
  type :: json
  site :: json
  domain :: json
  thumbnail_url :: json

text \<open>The conditional expression \<^verbatim>\<open>data["image"]["url"] if data.get("image") else None\<close>
  of \<^verbatim>\<open>Snippet.__init__\<close>.\<close>

definition snippet_thumbnail :: "json \<Rightarrow> error + json" where
  "snippet_thumbnail d =
     bindE (get d ''image'') (\<lambda>im.
       if truthy im then subscript2 d ''image'' ''url'' else Inr JNull)"

definition Snippet_init :: "json \<Rightarrow> error + Snippet" where
  "Snippet_init d =
     bindE (subscript d ''snippetId'') (\<lambda>i.
     bindE (subscript d ''url'') (\<lambda>u.
     bindE (subscript d ''title'') (\<lambda>t.
     bindE (subscript d ''description'') (\<lambda>de.
     bindE (get d ''type'') (\<lambda>ty.
     bindE (get d ''site'') (\<lambda>si.
     bindE (subscript d ''domain'') (\<lambda>do.
     bindE (snippet_thumbnail d) (\<lambda>th.
     Inr \<lparr>Snippet.data = d, Snippet.id = i, Snippet.url = u, Snippet.title = t,
          Snippet.description = de, Snippet.type = ty, Snippet.site = si,
          Snippet.domain = do, Snippet.thumbnail_url = th\<rparr>))))))))"

text \<open>\<^verbatim>\<open>str(snippet)\<close>: \<^verbatim>\<open>Snippet.__str__\<close> returns \<^verbatim>\<open>self.title\<close>.\<close>

definition Snippet_str :: "Snippet \<Rightarrow> error + string" where
  "Snippet_str self = str_result (Snippet.title self)"

section \<open>Members (\<^verbatim>\<open>member.py\<close>)\<close>

record PartialMember =
  data :: json
  id :: json
  name :: json
  image_url :: json
  profile_type :: json

definition PartialMember_init :: "json \<Rightarrow> error + PartialMember" where
  "PartialMember_init d =
     bindE (subscript d ''memberId'') (\<lambda>i.
     bindE (subscript d ''profileName'') (\<lambda>n.
     bindE (get d ''profileImageUrl'') (\<lambda>im.
     bindE (subscript d ''profileType'') (\<lambda>pt.
     Inr \<lparr>PartialMember.data = d, PartialMember.id = i, PartialMember.name = n,
          PartialMember.image_url = im, PartialMember.profile_type = pt\<rparr>))))"

text \<open>\<^verbatim>\<open>str(member)\<close>: \<^verbatim>\<open>PartialMember.__str__\<close> returns \<^verbatim>\<open>self.name\<close>. The three
  specializations define \<^verbatim>\<open>__repr__\<close> only and inherit this \<^verbatim>\<open>__str__\<close>, so it is defined on
  every extension of the base record.\<close>

definition PartialMember_str :: "'a PartialMember_scheme \<Rightarrow> error + string" where
  "PartialMember_str self = str_result (PartialMember.name self)"

record ArtistProfile =
  official_name :: json
  official_image_url :: json
  birthday :: json

definition ArtistProfile_init :: "json \<Rightarrow> error + ArtistProfile" where
  "ArtistProfile_init d =
     bindE (subscript d ''officialName'') (\<lambda>n.
     bindE (subscript d ''officialImageUrl'') (\<lambda>u.
     bindE (subscript2 d ''birthday'' ''date'') (\<lambda>b.
     Inr \<lparr>official_name = n, official_image_url = u, birthday = b\<rparr>)))"

record Artist = PartialMember +
  community_id :: json
  artist_profile :: ArtistProfile
  join_date :: json

definition Artist_init :: "json \<Rightarrow> error + Artist" where
  "Artist_init d =
     bindE (PartialMember_init d) (\<lambda>base.
     bindE (subscript d ''communityId'') (\<lambda>c.
     bindE (bindE (subscript d ''artistOfficialProfile'') ArtistProfile_init) (\<lambda>ap.
     bindE (subscript d ''joinedDate'') (\<lambda>j.
     Inr (PartialMember.extend base (Artist.fields c ap j))))))"

text \<open>The conditional expression
  \<^verbatim>\<open>ArtistProfile(data["artistOfficialProfile"]) if "artistOfficialProfile" in data else None\<close>
  of \<^verbatim>\<open>PostAuthor\<close> and \<^verbatim>\<open>Member\<close>.\<close>

definition optional_artist_profile :: "json \<Rightarrow> error + ArtistProfile option" where
  "optional_artist_profile d =
     bindE (contains ''artistOfficialProfile'' d) (\<lambda>present.
       if present
       then bindE (bindE (subscript d ''artistOfficialProfile'') ArtistProfile_init)
              (\<lambda>ap. Inr (Some ap))
       else Inr None)"

record PostAuthor = PartialMember +
  community_id :: json
  has_joined :: json
  is_official :: json
  profile_is_accessible :: bool
  is_my_profile :: json
  artist_profile :: "ArtistProfile option"

definition PostAuthor_init :: "json \<Rightarrow> error + PostAuthor" where
  "PostAuthor_init d =
     bindE (PartialMember_init d) (\<lambda>base.
     bindE (subscript d ''communityId'') (\<lambda>c.
     bindE (subscript d ''joined'') (\<lambda>j.
     bindE (subscript d ''hasOfficialMark'') (\<lambda>off.
     bindE (subscript d ''profileSpaceStatus'') (\<lambda>st.
     bindE (subscript d ''myProfile'') (\<lambda>my.
     bindE (optional_artist_profile d) (\<lambda>ap.
     Inr (PartialMember.extend base
            (PostAuthor.fields c j off (py_eq_val st (JStr ''ACCESSIBLE'')) my ap)))))))))"

text \<open>The conditional expression
  \<^verbatim>\<open>data["followCount"]["followerCount"] if "followCount" in data else None\<close>
  of \<^verbatim>\<open>Member.__init__\<close>.\<close>

definition member_follow_count :: "json \<Rightarrow> error + json" where
  "member_follow_count d =
     bindE (contains ''followCount'' d) (\<lambda>present.
       if present then subscript2 d ''followCount'' ''followerCount'' else Inr JNull)"

record Member = PartialMember +
  community_id :: json
  profile_cover_image_url :: json
  profile_comment :: json
  has_joined :: json
  has_membership :: json
  is_official :: json
  is_hidden :: json
  is_blinded :: json
  is_followed :: json
  is_my_profile :: json
  first_joined_at :: json
  follow_count :: json
  artist_profile :: "ArtistProfile option"

definition Member_init :: "json \<Rightarrow> error + Member" where
  "Member_init d =
     bindE (PartialMember_init d) (\<lambda>base.
     bindE (subscript d ''communityId'') (\<lambda>c.
     bindE (get d ''profileCoverImageUrl'') (\<lambda>cov.
     bindE (get d ''profileComment'') (\<lambda>com.
     bindE (subscript d ''joined'') (\<lambda>j.
     bindE (subscript d ''hasMembership'') (\<lambda>mem.
     bindE (subscript d ''hasOfficialMark'') (\<lambda>off.
     bindE (subscript d ''hidden'') (\<lambda>hid.
     bindE (subscript d ''blinded'') (\<lambda>bli.
     bindE (subscript d ''followed'') (\<lambda>fol.
     bindE (subscript d ''myProfile'') (\<lambda>my.
     bindE (subscript d ''firstJoinAt'') (\<lambda>fj.
     bindE (member_follow_count d) (\<lambda>fc.
     bindE (optional_artist_profile d) (\<lambda>ap.
     Inr (PartialMember.extend base
            (Member.fields c cov com j mem off hid bli fol my fj fc ap))))))))))))))))"

section \<open>Post-like objects (\<^verbatim>\<open>post.py\<close>)\<close>

text \<open>\<^verbatim>\<open>PartialCommunity\<close> is imported from \<^verbatim>\<open>community.py\<close>; its constructor is a parameter
  \<open>PartialCommunity\<close> of the constructors below, and \<open>'c\<close> is the type of its objects.\<close>

record 'c PostLike =
  data :: json
  id :: json
  body :: json
  plain_body :: json
  url :: json
  like_count :: json
  comment_count :: json
  published_at :: json
  is_bookmarked :: json
  is_locked :: json
  is_hidden_from_artist :: json
  is_membership_only :: json
  has_product :: json
  hashtags :: json
  post_type :: json
  section_type :: json
  author :: PostAuthor
  community :: 'c
  like_id :: json

definition PostLike_init :: "(json \<Rightarrow> error + 'c) \<Rightarrow> json \<Rightarrow> error + 'c PostLike" where
  "PostLike_init PartialCommunity d =
     bindE (subscript d ''postId'') (\<lambda>i.
     bindE (subscript d ''body'') (\<lambda>b.
     bindE (subscript d ''plainBody'') (\<lambda>pb.
     bindE (subscript d ''shareUrl'') (\<lambda>u.
     bindE (subscript d ''emotionCount'') (\<lambda>lc.
     bindE (subscript d ''commentCount'') (\<lambda>cc.
     bindE (subscript d ''publishedAt'') (\<lambda>pa.
     bindE (subscript d ''bookmarked'') (\<lambda>bm.
     bindE (subscript d ''locked'') (\<lambda>lo.
     bindE (subscript d ''hideFromArtist'') (\<lambda>hfa.
     bindE (subscript d ''membershipOnly'') (\<lambda>mo.
     bindE (subscript d ''hasProduct'') (\<lambda>hp.
     bindE (subscript d ''tags'') (\<lambda>tg.
     bindE (subscript d ''postType'') (\<lambda>pt.
     bindE (subscript d ''sectionType'') (\<lambda>st.
     bindE (bindE (subscript d ''author'') PostAuthor_init) (\<lambda>au.
     bindE (bindE (subscript d ''community'') PartialCommunity) (\<lambda>co.
     bindE (get d ''viewerEmotionId'') (\<lambda>li.
     Inr \<lparr>PostLike.data = d, PostLike.id = i, PostLike.body = b, PostLike.plain_body = pb,
          PostLike.url = u, PostLike.like_count = lc, PostLike.comment_count = cc,
          PostLike.published_at = pa, PostLike.is_bookmarked = bm, PostLike.is_locked = lo,
          PostLike.is_hidden_from_artist = hfa, PostLike.is_membership_only = mo,
          PostLike.has_product = hp, PostLike.hashtags = tg, PostLike.post_type = pt,
          PostLike.section_type = st, PostLike.author = au, PostLike.community = co,
          PostLike.like_id = li\<rparr>))))))))))))))))))"

text \<open>\<^verbatim>\<open>Post\<close> adds no stored attribute and inherits \<^verbatim>\<open>PostLike.__init__\<close>.\<close>

type_synonym 'c Post = "'c PostLike"

definition Post_init :: "(json \<Rightarrow> error + 'c) \<Rightarrow> json \<Rightarrow> error + 'c Post" where
  "Post_init PartialCommunity d = PostLike_init PartialCommunity d"

text \<open>\<^verbatim>\<open>str(post)\<close> for an object of class \<^verbatim>\<open>Post\<close>: \<^verbatim>\<open>Post.__str__\<close> returns
  \<^verbatim>\<open>self.plain_body\<close>.\<close>

definition Post_str :: "'c Post \<Rightarrow> error + string" where
  "Post_str self = str_result (PostLike.plain_body self)"

text \<open>\<^verbatim>\<open>PostLike\<close> defines neither \<^verbatim>\<open>__str__\<close> nor \<^verbatim>\<open>__repr__\<close>: \<^verbatim>\<open>str\<close> of an object whose
  class is \<^verbatim>\<open>PostLike\<close> itself is the text of \<^verbatim>\<open>object.__repr__\<close>, made of the module, the
  class name and the address of the object; the address text is the parameter
  \<open>address\<close>.\<close>

definition PostLike_str :: "string \<Rightarrow> 'c PostLike \<Rightarrow> error + string" where
  "PostLike_str address self =
     Inr (''<weverse.objects.post.PostLike object at '' @ address @ ''>'')"

text \<open>The three properties of \<^verbatim>\<open>Post\<close> share one shape: the bucket is looked up with
  \<^verbatim>\<open>self.data["attachment"].get(kind)\<close>, and when it is truthy the leaves are built from
  \<^verbatim>\<open>self.data["attachment"][kind].values()\<close>.\<close>

definition photos :: "'c Post \<Rightarrow> error + Photo list" where
  "photos self =
     bindE (bindE (subscript (PostLike.data self) ''attachment'') (\<lambda>a. get a ''photo'')) (\<lambda>b.
       if \<not> truthy b then Inr []
       else bindE (bindE (subscript2 (PostLike.data self) ''attachment'' ''photo'') values_of)
              (mapE Photo_init))"

definition videos :: "'c Post \<Rightarrow> error + Video list" where
  "videos self =
     bindE (bindE (subscript (PostLike.data self) ''attachment'') (\<lambda>a. get a ''video'')) (\<lambda>b.
       if \<not> truthy b then Inr []
       else bindE (bindE (subscript2 (PostLike.data self) ''attachment'' ''video'') values_of)
              (mapE Video_init))"

definition snippets :: "'c Post \<Rightarrow> error + Snippet list" where
  "snippets self =
     bindE (bindE (subscript (PostLike.data self) ''attachment'') (\<lambda>a. get a ''snippet'')) (\<lambda>b.
       if \<not> truthy b then Inr []
       else bindE (bindE (subscript2 (PostLike.data self) ''attachment'' ''snippet'') values_of)
              (mapE Snippet_init))"

section \<open>The identity contract: \<^verbatim>\<open>__eq__\<close>, \<^verbatim>\<open>==\<close> and \<^verbatim>\<open>__hash__\<close>\<close>

text \<open>The classes of the three modules that define or inherit \<^verbatim>\<open>__eq__\<close> and \<^verbatim>\<open>__hash__\<close>.
  \<^verbatim>\<open>ArtistProfile\<close> defines neither and has no \<^verbatim>\<open>id\<close>.\<close>

datatype cls =
    PhotoC | VideoC | SnippetC
  | PartialMemberC | ArtistC | PostAuthorC | MemberC
  | PostLikeC | PostC

text \<open>The method resolution order of each class, from its \<^verbatim>\<open>class\<close> statement
  (\<^verbatim>\<open>object\<close> left out).\<close>

fun mro :: "cls \<Rightarrow> cls list" where
  "mro PhotoC = [PhotoC]"
| "mro VideoC = [VideoC]"
| "mro SnippetC = [SnippetC]"
| "mro PartialMemberC = [PartialMemberC]"
| "mro ArtistC = [ArtistC, PartialMemberC]"
| "mro PostAuthorC = [PostAuthorC, PartialMemberC]"
| "mro MemberC = [MemberC, PartialMemberC]"
| "mro PostLikeC = [PostLikeC]"
| "mro PostC = [PostC, PostLikeC]"

definition issubclass :: "cls \<Rightarrow> cls \<Rightarrow> bool" where
  "issubclass c b = (b \<in> set (mro c))"

text \<open>An object together with its class.\<close>

datatype 'c entity =
    PhotoObj Photo
  | VideoObj Video
  | SnippetObj Snippet
  | PartialMemberObj PartialMember
  | ArtistObj Artist
  | PostAuthorObj PostAuthor
  | MemberObj Member
  | PostLikeObj "'c PostLike"
  | PostObj "'c Post"

fun class_of :: "'c entity \<Rightarrow> cls" where
  "class_of (PhotoObj x) = PhotoC"
| "class_of (VideoObj x) = VideoC"
| "class_of (SnippetObj x) = SnippetC"
| "class_of (PartialMemberObj x) = PartialMemberC"
| "class_of (ArtistObj x) = ArtistC"
| "class_of (PostAuthorObj x) = PostAuthorC"
| "class_of (MemberObj x) = MemberC"
| "class_of (PostLikeObj x) = PostLikeC"
| "class_of (PostObj x) = PostC"

text \<open>The attribute \<^verbatim>\<open>id\<close> of an object.\<close>

fun ent_id :: "'c entity \<Rightarrow> json" where
  "ent_id (PhotoObj x) = Photo.id x"
| "ent_id (VideoObj x) = Video.id x"
| "ent_id (SnippetObj x) = Snippet.id x"
| "ent_id (PartialMemberObj x) = PartialMember.id x"
| "ent_id (ArtistObj x) = PartialMember.id x"
| "ent_id (PostAuthorObj x) = PartialMember.id x"
| "ent_id (MemberObj x) = PartialMember.id x"
| "ent_id (PostLikeObj x) = PostLike.id x"
| "ent_id (PostObj x) = PostLike.id x"

definition isinstance :: "'c entity \<Rightarrow> cls \<Rightarrow> bool" where
  "isinstance x c = issubclass (class_of x) c"

text \<open>\<^verbatim>\<open>__eq__\<close>: \<^verbatim>\<open>Photo\<close>, \<^verbatim>\<open>Video\<close>, \<^verbatim>\<open>Snippet\<close>, \<^verbatim>\<open>PartialMember\<close> and \<^verbatim>\<open>PostLike\<close> each
  define it with the same body, and the other classes inherit it:
  \<^verbatim>\<open>if isinstance(other, self.__class__): return self.id == other.id\<close>, then
  \<^verbatim>\<open>raise NotImplementedError\<close>.\<close>

definition dunder_eq :: "'c entity \<Rightarrow> 'c entity \<Rightarrow> error + bool" where
  "dunder_eq self other =
     (if isinstance other (class_of self) then Inr (py_eq_val (ent_id self) (ent_id other))
      else Inl NotImplementedError)"

text \<open>The expression \<^verbatim>\<open>a == b\<close>. Python tries the method of the right operand first when the
  operands are of different types and the type of \<^verbatim>\<open>b\<close> is a subclass of the type of \<^verbatim>\<open>a\<close>
  (\<^verbatim>\<open>__eq__\<close> is its own reflection), and the method of the left operand first otherwise.
  The second method is tried only when the first returns \<^verbatim>\<open>NotImplemented\<close>; \<open>dunder_eq\<close>
  returns a \<^verbatim>\<open>bool\<close> or raises, so the first method decides.\<close>

definition py_eq :: "'c entity \<Rightarrow> 'c entity \<Rightarrow> error + bool" where
  "py_eq a b =
     (if class_of a \<noteq> class_of b \<and> issubclass (class_of b) (class_of a) then dunder_eq b a
      else dunder_eq a b)"

text \<open>\<^verbatim>\<open>__hash__\<close>: \<^verbatim>\<open>return hash(self.id)\<close>, again the same body in the five classes that
  define it. The builtin \<^verbatim>\<open>hash\<close> is the parameter \<open>hash\<close>: it raises on the unhashable
  values, and on strings its values change from one interpreter run to the next.\<close>

definition dunder_hash :: "(json \<Rightarrow> error + int) \<Rightarrow> 'c entity \<Rightarrow> error + int" where
  "dunder_hash hash self = hash (ent_id self)"

text \<open>\<^verbatim>\<open>str(x)\<close> by the class of \<^verbatim>\<open>x\<close>. \<open>container_repr\<close> is \<^verbatim>\<open>repr\<close> on lists and
  dictionaries and \<open>address\<close> gives the address text of an object.\<close>

fun py_str :: "(json \<Rightarrow> string) \<Rightarrow> ('c entity \<Rightarrow> string) \<Rightarrow> 'c entity \<Rightarrow> error + string"
  where
  "py_str container_repr address (PhotoObj x) = Photo_str x"
| "py_str container_repr address (VideoObj x) = Video_str container_repr x"
| "py_str container_repr address (SnippetObj x) = Snippet_str x"
| "py_str container_repr address (PartialMemberObj x) = PartialMember_str x"
| "py_str container_repr address (ArtistObj x) = PartialMember_str x"
| "py_str container_repr address (PostAuthorObj x) = PartialMember_str x"
| "py_str container_repr address (MemberObj x) = PartialMember_str x"
| "py_str container_repr address (PostLikeObj x) = PostLike_str (address (PostLikeObj x)) x"
| "py_str container_repr address (PostObj x) = Post_str x"

section \<open>Example payloads\<close>

text \<open>Each example payload is a \<^verbatim>\<open>dict\<close>; its keys and values are named apart, so that a
  payload with one key left out can be written down.\<close>

definition photo_fields :: "(string \<times> json) list" where
  "photo_fields = [(''photoId'', JStr ''p1''), (''url'', JStr ''http://x/1.jpg''),
     (''height'', JInt 100), (''width'', JInt 200)]"

definition photo_payload :: json where
  "photo_payload = JObj photo_fields"

definition video_info_fields :: "(string \<times> json) list" where
  "video_info_fields = [(''playTime'', JInt 12), (''height'', JInt 720),
     (''width'', JInt 1280), (''imageUrl'', JStr ''http://x/v1.jpg'')]"

definition video_fields :: "(string \<times> json) list" where
  "video_fields = [(''videoId'', JStr ''v1''), (''uploadInfo'', JObj video_info_fields)]"

definition video_payload :: json where
  "video_payload = JObj video_fields"

definition snippet_fields :: "(string \<times> json) list" where
  "snippet_fields = [(''snippetId'', JStr ''s1''), (''url'', JStr ''http://y/''),
     (''title'', JStr ''A title''), (''description'', JStr ''A text''),
     (''type'', JStr ''article''), (''site'', JStr ''Y''), (''domain'', JStr ''y''),
     (''image'', JObj [(''url'', JStr ''http://y/t.jpg'')])]"

definition snippet_payload :: json where
  "snippet_payload = JObj snippet_fields"

definition birthday_fields :: "(string \<times> json) list" where
  "birthday_fields = [(''date'', JInt 86400)]"

definition profile_fields :: "(string \<times> json) list" where
  "profile_fields = [(''officialName'', JStr ''N''),
     (''officialImageUrl'', JStr ''http://x/n.jpg''),
     (''birthday'', JObj birthday_fields)]"

definition profile_payload :: json where
  "profile_payload = JObj profile_fields"

text \<open>A user payload that carries the keys of all four member classes.\<close>

definition member_fields :: "(string \<times> json) list" where
  "member_fields = [(''memberId'', JStr ''m1''), (''profileName'', JStr ''Ann''),
     (''profileImageUrl'', JStr ''http://x/a.jpg''), (''profileType'', JStr ''FAN''),
     (''communityId'', JInt 3), (''profileCoverImageUrl'', JStr ''http://x/c.jpg''),
     (''profileComment'', JStr ''hi''), (''joined'', JBool True),
     (''hasMembership'', JBool False), (''hasOfficialMark'', JBool False),
     (''hidden'', JBool False), (''blinded'', JBool False), (''followed'', JBool True),
     (''myProfile'', JBool False), (''firstJoinAt'', JInt 1000),
     (''followCount'', JObj [(''followerCount'', JInt 7)]),
     (''artistOfficialProfile'', profile_payload),
     (''profileSpaceStatus'', JStr ''ACCESSIBLE''), (''joinedDate'', JInt 900)]"

definition member_payload :: json where
  "member_payload = JObj member_fields"

definition photo2_payload :: json where
  "photo2_payload = JObj [(''photoId'', JStr ''p2''), (''url'', JStr ''http://x/2.jpg''),
     (''height'', JInt 10), (''width'', JInt 20)]"

text \<open>The buckets of an \<^verbatim>\<open>attachment\<close> section: two photos, one video, no snippet.\<close>

definition photo_bucket :: "(string \<times> json) list" where
  "photo_bucket = [(''p1'', photo_payload), (''p2'', photo2_payload)]"

definition video_bucket :: "(string \<times> json) list" where
  "video_bucket = [(''v1'', video_payload)]"

definition attachment_fields :: "(string \<times> json) list" where
  "attachment_fields =
     [(''photo'', JObj photo_bucket), (''video'', JObj video_bucket), (''snippet'', JObj [])]"

text \<open>The keys of a post payload that \<^verbatim>\<open>PostLike.__init__\<close> reads; the payload without an
  \<^verbatim>\<open>attachment\<close> section, and the payload with one.\<close>

definition post_fields :: "(string \<times> json) list" where
  "post_fields = [(''postId'', JStr ''1-1''), (''body'', JStr ''<b>hello</b>''),
     (''plainBody'', JStr ''hello''), (''shareUrl'', JStr ''http://w/1-1''),
     (''emotionCount'', JInt 5), (''commentCount'', JInt 2), (''publishedAt'', JInt 2000),
     (''bookmarked'', JBool False), (''locked'', JBool False),
     (''hideFromArtist'', JBool False), (''membershipOnly'', JBool False),
     (''hasProduct'', JBool False), (''tags'', JList [JStr ''tag'']),
     (''postType'', JStr ''NORMAL''), (''sectionType'', JStr ''FEED''),
     (''author'', member_payload), (''community'', JObj [(''communityId'', JInt 3)]),
     (''viewerEmotionId'', JStr ''e1'')]"

definition post_payload_no_attachment :: json where
  "post_payload_no_attachment = JObj post_fields"

definition post_payload :: json where
  "post_payload = JObj (post_fields @ [(''attachment'', JObj attachment_fields)])"

text \<open>A member payload whose \<^verbatim>\<open>followCount\<close> is present and \<^verbatim>\<open>null\<close>, and an author payload
  whose \<^verbatim>\<open>artistOfficialProfile\<close> is present and \<^verbatim>\<open>null\<close>.\<close>

definition null_follow_count_fields :: "(string \<times> json) list" where
  "null_follow_count_fields = [(''memberId'', JStr ''m1''),
     (''profileName'', JStr ''Ann''), (''profileType'', JStr ''FAN''),
     (''communityId'', JInt 3), (''joined'', JBool True), (''hasMembership'', JBool False),
     (''hasOfficialMark'', JBool False), (''hidden'', JBool False),
     (''blinded'', JBool False), (''followed'', JBool True), (''myProfile'', JBool False),
     (''firstJoinAt'', JInt 1000), (''followCount'', JNull)]"

definition member_payload_null_follow_count :: json where
  "member_payload_null_follow_count = JObj null_follow_count_fields"

definition null_profile_fields :: "(string \<times> json) list" where
  "null_profile_fields = [(''memberId'', JStr ''m1''),
     (''profileName'', JStr ''Ann''), (''profileType'', JStr ''FAN''),
     (''communityId'', JInt 3), (''joined'', JBool True),
     (''hasOfficialMark'', JBool False), (''profileSpaceStatus'', JStr ''ACCESSIBLE''),
     (''myProfile'', JBool False), (''artistOfficialProfile'', JNull)]"

definition author_payload_null_profile :: json where
  "author_payload_null_profile = JObj null_profile_fields"

text \<open>A photo payload whose \<^verbatim>\<open>url\<close> is \<^verbatim>\<open>null\<close>.\<close>

definition photo_payload_null_url :: json where
  "photo_payload_null_url = JObj [(''photoId'', JStr ''p3''), (''url'', JNull),
     (''height'', JInt 1), (''width'', JInt 1)]"

text \<open>Instances of the parameters \<open>container_repr\<close> and \<open>address\<close> for the examples; no
  example prints a container, and the address is the same text for every object.\<close>

definition example_repr :: "json \<Rightarrow> string" where
  "example_repr v = ''[...]''"

definition example_address :: "json entity \<Rightarrow> string" where
  "example_address x = ''0x7f00''"

text \<open>An instance of the parameter \<open>PartialCommunity\<close> for the examples: it keeps the
  sub-mapping it is given.\<close>

definition raw_community :: "json \<Rightarrow> error + json" where
  "raw_community d = Inr d"

text \<open>An instance of the parameter \<open>hash\<close> for the examples: unhashable containers raise,
  and equal values (\<^verbatim>\<open>True\<close> and \<^verbatim>\<open>1\<close>) have equal hashes.\<close>

fun example_hash :: "json \<Rightarrow> error + int" where
  "example_hash JNull = Inr 0"
| "example_hash (JBool b) = Inr (if b then 1 else 0)"
| "example_hash (JInt i) = Inr i"
| "example_hash (JStr s) = Inr (int (length s))"
| "example_hash (JList xs) = Inl TypeError"
| "example_hash (JObj kvs) = Inl TypeError"

text \<open>The objects the example payloads construct.\<close>

definition photo_object :: Photo where
  "photo_object = \<lparr>Photo.data = photo_payload, Photo.id = JStr ''p1'',
     Photo.url = JStr ''http://x/1.jpg'', Photo.height = JInt 100, Photo.width = JInt 200\<rparr>"

definition video_object :: Video where
  "video_object = \<lparr>Video.data = video_payload, Video.id = JStr ''v1'',
     Video.duration = JInt 12, Video.height = JInt 720, Video.width = JInt 1280,
     Video.thumbnail_url = JStr ''http://x/v1.jpg''\<rparr>"

definition snippet_object :: Snippet where
  "snippet_object = \<lparr>Snippet.data = snippet_payload, Snippet.id = JStr ''s1'',
     Snippet.url = JStr ''http://y/'', Snippet.title = JStr ''A title'',
     Snippet.description = JStr ''A text'', Snippet.type = JStr ''article'',
     Snippet.site = JStr ''Y'', Snippet.domain = JStr ''y'',
     Snippet.thumbnail_url = JStr ''http://y/t.jpg''\<rparr>"

definition profile_object :: ArtistProfile where
  "profile_object = \<lparr>official_name = JStr ''N'',
     official_image_url = JStr ''http://x/n.jpg'', birthday = JInt 86400\<rparr>"

definition partial_member_object :: PartialMember where
  "partial_member_object = \<lparr>PartialMember.data = member_payload,
     PartialMember.id = JStr ''m1'', PartialMember.name = JStr ''Ann'',
     PartialMember.image_url = JStr ''http://x/a.jpg'',
     PartialMember.profile_type = JStr ''FAN''\<rparr>"

definition artist_object :: Artist where
  "artist_object = PartialMember.extend partial_member_object
     (Artist.fields (JInt 3) profile_object (JInt 900))"

definition author_object :: PostAuthor where
  "author_object = PartialMember.extend partial_member_object
     (PostAuthor.fields (JInt 3) (JBool True) (JBool False) True (JBool False)
        (Some profile_object))"

definition member_object :: Member where
  "member_object = PartialMember.extend partial_member_object
     (Member.fields (JInt 3) (JStr ''http://x/c.jpg'') (JStr ''hi'') (JBool True)
        (JBool False) (JBool False) (JBool False) (JBool False) (JBool True) (JBool False)
        (JInt 1000) (JInt 7) (Some profile_object))"

definition photo2_object :: Photo where
  "photo2_object = \<lparr>Photo.data = photo2_payload, Photo.id = JStr ''p2'',
     Photo.url = JStr ''http://x/2.jpg'', Photo.height = JInt 10, Photo.width = JInt 20\<rparr>"

definition post_object :: "json Post" where
  "post_object = \<lparr>PostLike.data = post_payload, PostLike.id = JStr ''1-1'',
     PostLike.body = JStr ''<b>hello</b>'', PostLike.plain_body = JStr ''hello'',
     PostLike.url = JStr ''http://w/1-1'', PostLike.like_count = JInt 5,
     PostLike.comment_count = JInt 2, PostLike.published_at = JInt 2000,
     PostLike.is_bookmarked = JBool False, PostLike.is_locked = JBool False,
     PostLike.is_hidden_from_artist = JBool False, PostLike.is_membership_only = JBool False,
     PostLike.has_product = JBool False, PostLike.hashtags = JList [JStr ''tag''],
     PostLike.post_type = JStr ''NORMAL'', PostLike.section_type = JStr ''FEED'',
     PostLike.author = author_object,
     PostLike.community = JObj [(''communityId'', JInt 3)],
     PostLike.like_id = JStr ''e1''\<rparr>"

section \<open>Basic facts about the Python operations\<close>

lemma bindE_Inl [simp]: "bindE (Inl e) f = Inl e"
  by (simp add: bindE_def)

lemma bindE_Inr [simp]: "bindE (Inr x) f = f x"
  by (simp add: bindE_def)

lemma bindE_eq_Inr: "bindE m f = Inr y \<longleftrightarrow> (\<exists>x. m = Inr x \<and> f x = Inr y)"
  by (cases m) simp_all

lemma isl_iff_no_result: "isl m \<longleftrightarrow> (\<forall>y. m \<noteq> Inr y)"
  by (cases m) simp_all

lemma subscript_eq_Inr:
  "subscript d k = Inr v \<longleftrightarrow> (\<exists>kvs. d = JObj kvs \<and> map_of kvs k = Some v)"
  by (cases d) (simp_all split: option.splits)

lemma subscript2_eq_Inr:
  "subscript2 d k1 k2 = Inr v \<longleftrightarrow>
     (\<exists>kvs sub. d = JObj kvs \<and> map_of kvs k1 = Some (JObj sub) \<and> map_of sub k2 = Some v)"
  unfolding subscript2_def bindE_eq_Inr subscript_eq_Inr by auto

lemma get_eq_Inr:
  "get d k = Inr v \<longleftrightarrow>
     (\<exists>kvs. d = JObj kvs \<and> v = (case map_of kvs k of None \<Rightarrow> JNull | Some w \<Rightarrow> w))"
  by (cases d) auto

lemma contains_JObj_eq_Inr:
  "contains k (JObj kvs) = Inr b \<longleftrightarrow> b = (map_of kvs k \<noteq> None)"
  by auto

lemma py_eq_val_JStr [simp]: "py_eq_val v (JStr s) \<longleftrightarrow> v = JStr s"
  by (cases v) auto

lemma mapE_eq_Inr: "mapE f xs = Inr ys \<longleftrightarrow> list_all2 (\<lambda>x y. f x = Inr y) xs ys"
proof (induction xs arbitrary: ys)
  case Nil
  show ?case by auto
next
  case (Cons x xs)
  show ?case
    by (cases ys) (auto simp: bindE_eq_Inr Cons.IH)
qed

section \<open>When a constructor succeeds, and with what\<close>

lemma Photo_init_eq_Inr:
  "Photo_init d = Inr p \<longleftrightarrow>
     (\<exists>kvs i u h w. d = JObj kvs \<and> map_of kvs ''photoId'' = Some i \<and>
        map_of kvs ''url'' = Some u \<and> map_of kvs ''height'' = Some h \<and>
        map_of kvs ''width'' = Some w \<and>
        p = \<lparr>Photo.data = d, Photo.id = i, Photo.url = u, Photo.height = h, Photo.width = w\<rparr>)"
  unfolding Photo_init_def bindE_eq_Inr subscript_eq_Inr by auto

lemma Video_init_eq_Inr:
  "Video_init d = Inr v \<longleftrightarrow>
     (\<exists>kvs info i t h w u. d = JObj kvs \<and> map_of kvs ''videoId'' = Some i \<and>
        map_of kvs ''uploadInfo'' = Some (JObj info) \<and> map_of info ''playTime'' = Some t \<and>
        map_of info ''height'' = Some h \<and> map_of info ''width'' = Some w \<and>
        map_of info ''imageUrl'' = Some u \<and>
        v = \<lparr>Video.data = d, Video.id = i, Video.duration = t, Video.height = h,
             Video.width = w, Video.thumbnail_url = u\<rparr>)"
  unfolding Video_init_def bindE_eq_Inr subscript_eq_Inr subscript2_eq_Inr by auto

lemma PartialMember_init_eq_Inr:
  "PartialMember_init d = Inr p \<longleftrightarrow>
     (\<exists>kvs i n pt. d = JObj kvs \<and> map_of kvs ''memberId'' = Some i \<and>
        map_of kvs ''profileName'' = Some n \<and> map_of kvs ''profileType'' = Some pt \<and>
        p = \<lparr>PartialMember.data = d, PartialMember.id = i, PartialMember.name = n,
             PartialMember.image_url =
               (case map_of kvs ''profileImageUrl'' of None \<Rightarrow> JNull | Some w \<Rightarrow> w),
             PartialMember.profile_type = pt\<rparr>)"
  unfolding PartialMember_init_def bindE_eq_Inr subscript_eq_Inr get_eq_Inr by auto

lemma ArtistProfile_init_eq_Inr:
  "ArtistProfile_init d = Inr a \<longleftrightarrow>
     (\<exists>kvs bd n u b. d = JObj kvs \<and> map_of kvs ''officialName'' = Some n \<and>
        map_of kvs ''officialImageUrl'' = Some u \<and> map_of kvs ''birthday'' = Some (JObj bd) \<and>
        map_of bd ''date'' = Some b \<and>
        a = \<lparr>official_name = n, official_image_url = u, birthday = b\<rparr>)"
  unfolding ArtistProfile_init_def bindE_eq_Inr subscript_eq_Inr subscript2_eq_Inr by auto

lemma optional_artist_profile_eq_Inr:
  "optional_artist_profile (JObj kvs) = Inr r \<longleftrightarrow>
     (case map_of kvs ''artistOfficialProfile'' of None \<Rightarrow> r = None
      | Some pj \<Rightarrow> \<exists>ap. ArtistProfile_init pj = Inr ap \<and> r = Some ap)"
  unfolding optional_artist_profile_def
  by (auto simp: bindE_eq_Inr split: option.splits)

lemma snippet_thumbnail_JObj:
  "snippet_thumbnail (JObj kvs) =
     (case map_of kvs ''image'' of None \<Rightarrow> Inr JNull
      | Some im \<Rightarrow> if truthy im then subscript im ''url'' else Inr JNull)"
  by (simp add: snippet_thumbnail_def subscript2_def split: option.splits)

lemma member_follow_count_JObj:
  "member_follow_count (JObj kvs) =
     (case map_of kvs ''followCount'' of None \<Rightarrow> Inr JNull
      | Some cnt \<Rightarrow> subscript cnt ''followerCount'')"
  by (simp add: member_follow_count_def subscript2_def split: option.splits)

lemma Snippet_init_eq_Inr:
  "Snippet_init d = Inr s \<longleftrightarrow>
     (\<exists>kvs i u t de do th. d = JObj kvs \<and> map_of kvs ''snippetId'' = Some i \<and>
        map_of kvs ''url'' = Some u \<and> map_of kvs ''title'' = Some t \<and>
        map_of kvs ''description'' = Some de \<and> map_of kvs ''domain'' = Some do \<and>
        snippet_thumbnail d = Inr th \<and>
        s = \<lparr>Snippet.data = d, Snippet.id = i, Snippet.url = u, Snippet.title = t,
             Snippet.description = de,
             Snippet.type = (case map_of kvs ''type'' of None \<Rightarrow> JNull | Some w \<Rightarrow> w),
             Snippet.site = (case map_of kvs ''site'' of None \<Rightarrow> JNull | Some w \<Rightarrow> w),
             Snippet.domain = do, Snippet.thumbnail_url = th\<rparr>)"
  unfolding Snippet_init_def bindE_eq_Inr subscript_eq_Inr get_eq_Inr by auto

lemma Artist_init_eq_Inr:
  "Artist_init d = Inr a \<longleftrightarrow>
     (\<exists>kvs base c pj ap j. d = JObj kvs \<and> PartialMember_init d = Inr base \<and>
        map_of kvs ''communityId'' = Some c \<and>
        map_of kvs ''artistOfficialProfile'' = Some pj \<and> ArtistProfile_init pj = Inr ap \<and>
        map_of kvs ''joinedDate'' = Some j \<and>
        a = PartialMember.extend base (Artist.fields c ap j))"
  unfolding Artist_init_def bindE_eq_Inr subscript_eq_Inr by auto

lemma PostAuthor_init_eq_Inr:
  "PostAuthor_init d = Inr a \<longleftrightarrow>
     (\<exists>kvs base c j off st my ap. d = JObj kvs \<and> PartialMember_init d = Inr base \<and>
        map_of kvs ''communityId'' = Some c \<and> map_of kvs ''joined'' = Some j \<and>
        map_of kvs ''hasOfficialMark'' = Some off \<and>
        map_of kvs ''profileSpaceStatus'' = Some st \<and> map_of kvs ''myProfile'' = Some my \<and>
        optional_artist_profile d = Inr ap \<and>
        a = PartialMember.extend base
              (PostAuthor.fields c j off (st = JStr ''ACCESSIBLE'') my ap))"
  unfolding PostAuthor_init_def bindE_eq_Inr subscript_eq_Inr by auto

lemma Member_init_eq_Inr:
  "Member_init d = Inr m \<longleftrightarrow>
     (\<exists>kvs base c j mem off hid bli fol my fj fc ap. d = JObj kvs \<and>
        PartialMember_init d = Inr base \<and>
        map_of kvs ''communityId'' = Some c \<and> map_of kvs ''joined'' = Some j \<and>
        map_of kvs ''hasMembership'' = Some mem \<and> map_of kvs ''hasOfficialMark'' = Some off \<and>
        map_of kvs ''hidden'' = Some hid \<and> map_of kvs ''blinded'' = Some bli \<and>
        map_of kvs ''followed'' = Some fol \<and> map_of kvs ''myProfile'' = Some my \<and>
        map_of kvs ''firstJoinAt'' = Some fj \<and>
        member_follow_count d = Inr fc \<and>
        optional_artist_profile d = Inr ap \<and>
        m = PartialMember.extend base
              (Member.fields c
                 (case map_of kvs ''profileCoverImageUrl'' of None \<Rightarrow> JNull | Some w \<Rightarrow> w)
                 (case map_of kvs ''profileComment'' of None \<Rightarrow> JNull | Some w \<Rightarrow> w)
                 j mem off hid bli fol my fj fc ap))"
  unfolding Member_init_def bindE_eq_Inr subscript_eq_Inr get_eq_Inr by auto

lemma PostLike_init_eq_Inr:
  "PostLike_init C d = Inr p \<longleftrightarrow>
     (\<exists>kvs i b pb u lc cc pa bm lo hfa mo hp tg pt st aj au cj co.
        d = JObj kvs \<and> map_of kvs ''postId'' = Some i \<and> map_of kvs ''body'' = Some b \<and>
        map_of kvs ''plainBody'' = Some pb \<and> map_of kvs ''shareUrl'' = Some u \<and>
        map_of kvs ''emotionCount'' = Some lc \<and> map_of kvs ''commentCount'' = Some cc \<and>
        map_of kvs ''publishedAt'' = Some pa \<and> map_of kvs ''bookmarked'' = Some bm \<and>
        map_of kvs ''locked'' = Some lo \<and> map_of kvs ''hideFromArtist'' = Some hfa \<and>
        map_of kvs ''membershipOnly'' = Some mo \<and> map_of kvs ''hasProduct'' = Some hp \<and>
        map_of kvs ''tags'' = Some tg \<and> map_of kvs ''postType'' = Some pt \<and>
        map_of kvs ''sectionType'' = Some st \<and>
        map_of kvs ''author'' = Some aj \<and> PostAuthor_init aj = Inr au \<and>
        map_of kvs ''community'' = Some cj \<and> C cj = Inr co \<and>
        p = \<lparr>PostLike.data = d, PostLike.id = i, PostLike.body = b, PostLike.plain_body = pb,
          PostLike.url = u, PostLike.like_count = lc, PostLike.comment_count = cc,
          PostLike.published_at = pa, PostLike.is_bookmarked = bm, PostLike.is_locked = lo,
          PostLike.is_hidden_from_artist = hfa, PostLike.is_membership_only = mo,
          PostLike.has_product = hp, PostLike.hashtags = tg, PostLike.post_type = pt,
          PostLike.section_type = st, PostLike.author = au, PostLike.community = co,
          PostLike.like_id =
            (case map_of kvs ''viewerEmotionId'' of None \<Rightarrow> JNull | Some w \<Rightarrow> w)\<rparr>)"
  unfolding PostLike_init_def bindE_eq_Inr subscript_eq_Inr get_eq_Inr by auto

section \<open>The example payloads construct\<close>

lemmas example_object_defs =
  photo_object_def video_object_def snippet_object_def profile_object_def
  partial_member_object_def artist_object_def author_object_def member_object_def
  photo2_object_def post_object_def PartialMember.defs Artist.defs PostAuthor.defs Member.defs

lemma Photo_init_example: "Photo_init photo_payload = Inr photo_object"
  by (simp add: Photo_init_def photo_payload_def photo_fields_def photo_object_def)

lemma Video_init_example: "Video_init video_payload = Inr video_object"
  by (simp add: Video_init_def subscript2_def video_payload_def video_fields_def video_info_fields_def video_object_def)

lemma Snippet_init_example: "Snippet_init snippet_payload = Inr snippet_object"
  by (simp add: Snippet_init_def snippet_thumbnail_def subscript2_def snippet_payload_def snippet_fields_def
        snippet_object_def)

lemma ArtistProfile_init_example: "ArtistProfile_init profile_payload = Inr profile_object"
  by (simp add: ArtistProfile_init_def subscript2_def profile_payload_def profile_fields_def birthday_fields_def profile_object_def)

lemma PartialMember_init_example:
  "PartialMember_init member_payload = Inr partial_member_object"
  by (simp add: PartialMember_init_def partial_member_object_def) (simp add: member_payload_def member_fields_def)

lemma optional_artist_profile_example:
  "optional_artist_profile member_payload = Inr (Some profile_object)"
  unfolding optional_artist_profile_def
  by (simp add: member_payload_def member_fields_def ArtistProfile_init_example)

lemma Artist_init_example: "Artist_init member_payload = Inr artist_object"
  unfolding Artist_init_def PartialMember_init_example
  by (simp add: member_payload_def member_fields_def ArtistProfile_init_example artist_object_def)

lemma PostAuthor_init_example: "PostAuthor_init member_payload = Inr author_object"
  unfolding PostAuthor_init_def PartialMember_init_example optional_artist_profile_example
  by (simp add: member_payload_def member_fields_def author_object_def)

lemma Member_init_example: "Member_init member_payload = Inr member_object"
  unfolding Member_init_def PartialMember_init_example optional_artist_profile_example
  by (simp add: member_payload_def member_fields_def member_follow_count_def subscript2_def member_object_def)

lemma Photo_init_example2: "Photo_init photo2_payload = Inr photo2_object"
  by (simp add: Photo_init_def photo2_payload_def photo2_object_def)

lemma PostLike_init_example: "PostLike_init raw_community post_payload = Inr post_object"
  unfolding PostLike_init_def
  by (simp add: post_payload_def post_fields_def PostAuthor_init_example raw_community_def
        post_object_def)

lemma Post_init_example: "Post_init raw_community post_payload = Inr post_object"
  by (simp add: Post_init_def PostLike_init_example)

lemma Post_init_no_attachment_example:
  "Post_init raw_community post_payload_no_attachment =
     Inr (post_object\<lparr>PostLike.data := post_payload_no_attachment\<rparr>)"
  unfolding Post_init_def PostLike_init_def
  by (simp add: post_payload_no_attachment_def post_fields_def PostAuthor_init_example
        raw_community_def post_object_def)

section \<open>The specialization superset law\<close>

text \<open>
  Claim C5. Every payload from which a \<^verbatim>\<open>Member\<close> can be constructed also constructs a
  \<^verbatim>\<open>PartialMember\<close>, and the two objects agree on \<^verbatim>\<open>id\<close>, \<^verbatim>\<open>name\<close>, \<^verbatim>\<open>image_url\<close> and
  \<^verbatim>\<open>profile_type\<close>: \<^verbatim>\<open>Member.__init__\<close> runs the base constructor and never reassigns a
  base attribute.
\<close>

theorem Member_extends_PartialMember:
  assumes "Member_init d = Inr m"
  shows "\<exists>p. PartialMember_init d = Inr p \<and>
           PartialMember.id p = PartialMember.id m \<and>
           PartialMember.name p = PartialMember.name m \<and>
           PartialMember.image_url p = PartialMember.image_url m \<and>
           PartialMember.profile_type p = PartialMember.profile_type m"
  using assms unfolding Member_init_eq_Inr
  by (auto simp: PartialMember.defs)

theorem Member_extends_PartialMember_witness:
  "\<exists>p. PartialMember_init member_payload = Inr p \<and>
       PartialMember.id p = JStr ''m1'' \<and> PartialMember.name p = JStr ''Ann'' \<and>
       PartialMember.image_url p = JStr ''http://x/a.jpg'' \<and>
       PartialMember.profile_type p = JStr ''FAN''"
  using Member_extends_PartialMember [OF Member_init_example]
  by (simp add: example_object_defs)

section \<open>The flags of a post author\<close>



section \<open>Equality and hashing\<close>

lemma example_hash_respects_eq: "py_eq_val x y \<Longrightarrow> example_hash x = example_hash y"
  by (cases x; cases y) (auto split: if_splits)

text \<open>Called as a method, \<^verbatim>\<open>__eq__\<close> of a base-class object accepts an object of a
  specialization; it is the dispatch of \<^verbatim>\<open>==\<close> that turns the comparison over.\<close>

lemma dunder_eq_base_with_specialization:
  "dunder_eq (PartialMemberObj p) (MemberObj m) =
     Inr (py_eq_val (PartialMember.id p) (PartialMember.id m))"
  "dunder_eq (MemberObj m) (PartialMemberObj p) = Inl NotImplementedError"
  by (simp_all add: dunder_eq_def isinstance_def issubclass_def)

text \<open>
  Claim C2. For two entities of the same class, \<^verbatim>\<open>a == b\<close> returns whether their ids are
  equal (for string ids: whether they are the same string). For two entities of different
  classes, \<^verbatim>\<open>a == b\<close> raises \<^verbatim>\<open>NotImplementedError\<close>; this holds for every pair of the nine
  classes, a base class against its specialization included, in both orders.
\<close>

theorem equality_is_by_id_within_a_class:
  "(class_of a = class_of b \<longrightarrow> py_eq a b = Inr (py_eq_val (ent_id a) (ent_id b))) \<and>
   (class_of a = class_of b \<longrightarrow> ent_id a = JStr s \<longrightarrow> ent_id b = JStr t \<longrightarrow>
      py_eq a b = Inr (s = t)) \<and>
   (class_of a \<noteq> class_of b \<longrightarrow> py_eq a b = Inl NotImplementedError)"
proof -
  have same: "py_eq a b = Inr (py_eq_val (ent_id a) (ent_id b))" if "class_of a = class_of b"
    using that by (cases "class_of b") (simp_all add: py_eq_def dunder_eq_def isinstance_def issubclass_def)
  have diff: "py_eq a b = Inl NotImplementedError" if "class_of a \<noteq> class_of b"
    using that
    by (cases "class_of a"; cases "class_of b")
       (simp_all add: py_eq_def dunder_eq_def isinstance_def issubclass_def)
  show ?thesis using same diff by simp
qed

theorem equality_is_by_id_within_a_class_witness:
  "py_eq (PhotoObj photo_object) (PhotoObj (photo_object\<lparr>Photo.url := JNull\<rparr>) :: json entity)
     = Inr True \<and>
   py_eq (MemberObj member_object)
     (MemberObj (member_object\<lparr>PartialMember.id := JStr ''m2''\<rparr>) :: json entity) = Inr False \<and>
   py_eq (PartialMemberObj partial_member_object) (MemberObj member_object :: json entity)
     = Inl NotImplementedError \<and>
   py_eq (MemberObj member_object) (PartialMemberObj partial_member_object :: json entity)
     = Inl NotImplementedError \<and>
   py_eq (PostLikeObj post_object) (PostObj post_object) = Inl NotImplementedError \<and>
   py_eq (PhotoObj photo_object) (VideoObj video_object :: json entity)
     = Inl NotImplementedError"
  using
    equality_is_by_id_within_a_class [of "PhotoObj photo_object"
      "PhotoObj (photo_object\<lparr>Photo.url := JNull\<rparr>) :: json entity" "''p1''" "''p1''"]
    equality_is_by_id_within_a_class [of "MemberObj member_object"
      "MemberObj (member_object\<lparr>PartialMember.id := JStr ''m2''\<rparr>) :: json entity"
      "''m1''" "''m2''"]
    equality_is_by_id_within_a_class [of "PartialMemberObj partial_member_object"
      "MemberObj member_object :: json entity"]
    equality_is_by_id_within_a_class [of "MemberObj member_object"
      "PartialMemberObj partial_member_object :: json entity"]
    equality_is_by_id_within_a_class [of "PostLikeObj post_object" "PostObj post_object"]
    equality_is_by_id_within_a_class [of "PhotoObj photo_object"
      "VideoObj video_object :: json entity"]
  by (simp add: example_object_defs)

text \<open>
  Claim C6. The hash of an entity is the hash of its \<^verbatim>\<open>id\<close>: two entities with the same
  id have the same hash whatever their other attributes are. With a \<^verbatim>\<open>hash\<close> that gives
  equal values equal hashes, as Python's does, two entities that \<^verbatim>\<open>==\<close> finds equal have
  equal hashes; for an id that is a string this needs nothing of \<^verbatim>\<open>hash\<close>.
\<close>

theorem hash_is_hash_of_id:
  "dunder_hash hash e = hash (ent_id e) \<and>
   (ent_id a = ent_id b \<longrightarrow> dunder_hash hash a = dunder_hash hash b) \<and>
   ((\<forall>x y. py_eq_val x y \<longrightarrow> hash x = hash y) \<longrightarrow> class_of a = class_of b \<longrightarrow>
      py_eq a b = Inr True \<longrightarrow> dunder_hash hash a = dunder_hash hash b) \<and>
   (ent_id b = JStr s \<longrightarrow> class_of a = class_of b \<longrightarrow> py_eq a b = Inr True \<longrightarrow>
      dunder_hash hash a = dunder_hash hash b)"
proof -
  have eq: "py_eq a b = Inr (py_eq_val (ent_id a) (ent_id b))" if "class_of a = class_of b"
    using that
    by (cases "class_of b") (simp_all add: py_eq_def dunder_eq_def isinstance_def issubclass_def)
  show ?thesis
    by (auto simp: dunder_hash_def eq)
qed

theorem hash_is_hash_of_id_witness:
  "dunder_hash example_hash (PhotoObj photo_object :: json entity) = Inr 2 \<and>
   dunder_hash example_hash (PhotoObj (photo_object\<lparr>Photo.url := JNull\<rparr>) :: json entity)
     = Inr 2 \<and>
   py_eq (PhotoObj photo_object) (PhotoObj (photo_object\<lparr>Photo.url := JNull\<rparr>) :: json entity)
     = Inr True"
proof -
  have eq: "py_eq (PhotoObj photo_object)
      (PhotoObj (photo_object\<lparr>Photo.url := JNull\<rparr>) :: json entity) = Inr True"
    by (simp add: py_eq_def dunder_eq_def isinstance_def issubclass_def photo_object_def)
  have h: "dunder_hash example_hash (PhotoObj photo_object :: json entity) = Inr 2"
    by (simp add: dunder_hash_def photo_object_def)
  have same: "class_of (PhotoObj photo_object :: json entity) =
      class_of (PhotoObj (photo_object\<lparr>Photo.url := JNull\<rparr>) :: json entity)"
    by simp
  have "dunder_hash example_hash (PhotoObj photo_object :: json entity) =
      dunder_hash example_hash (PhotoObj (photo_object\<lparr>Photo.url := JNull\<rparr>) :: json entity)"
    by (rule hash_is_hash_of_id [of example_hash "PhotoObj photo_object :: json entity"
      "PhotoObj photo_object :: json entity"
      "PhotoObj (photo_object\<lparr>Photo.url := JNull\<rparr>) :: json entity" "''p1''",
      THEN conjunct2, THEN conjunct2, THEN conjunct1, rule_format,
      OF example_hash_respects_eq same eq])
  with eq h show ?thesis by simp
qed

section \<open>String conversion\<close>

text \<open>
  Claim C10, as the code has it. The classes that define or inherit a \<^verbatim>\<open>__str__\<close> return one
  designated attribute, which is not the id: \<^verbatim>\<open>str\<close> of a \<^verbatim>\<open>Photo\<close> is its \<^verbatim>\<open>url\<close>, of a
  \<^verbatim>\<open>Snippet\<close> its \<^verbatim>\<open>title\<close>, of a \<^verbatim>\<open>PartialMember\<close>, \<^verbatim>\<open>Artist\<close>, \<^verbatim>\<open>PostAuthor\<close> or \<^verbatim>\<open>Member\<close> its
  \<^verbatim>\<open>name\<close>, of a \<^verbatim>\<open>Post\<close> its \<^verbatim>\<open>plain_body\<close>, whenever that attribute is a string (for a
  constructed object: whenever the payload's \<^verbatim>\<open>url\<close>, \<^verbatim>\<open>title\<close>, \<^verbatim>\<open>profileName\<close> or
  \<^verbatim>\<open>plainBody\<close> is a string); when the attribute is not a string, \<^verbatim>\<open>str\<close> raises
  \<^verbatim>\<open>TypeError\<close>. Two classes have no \<^verbatim>\<open>__str__\<close>: \<^verbatim>\<open>str\<close> of a \<^verbatim>\<open>Video\<close> is the text of its
  \<^verbatim>\<open>__repr__\<close>, which starts with \<^verbatim>\<open>Video video_id=\<close> followed by the id, and \<^verbatim>\<open>str\<close> of an
  object of class \<^verbatim>\<open>PostLike\<close> is the default text of \<^verbatim>\<open>object\<close>, which shows no attribute.
\<close>

theorem string_conversion:
  "(Photo.url ph = JStr s1 \<longrightarrow> py_str R A (PhotoObj ph) = Inr s1) \<and>
   ((\<forall>s. Photo.url ph \<noteq> JStr s) \<longrightarrow> py_str R A (PhotoObj ph) = Inl TypeError) \<and>
   (Snippet.title sn = JStr s2 \<longrightarrow> py_str R A (SnippetObj sn) = Inr s2) \<and>
   ((\<forall>s. Snippet.title sn \<noteq> JStr s) \<longrightarrow> py_str R A (SnippetObj sn) = Inl TypeError) \<and>
   (PartialMember.name pm = JStr s3 \<longrightarrow> py_str R A (PartialMemberObj pm) = Inr s3) \<and>
   ((\<forall>s. PartialMember.name pm \<noteq> JStr s) \<longrightarrow>
      py_str R A (PartialMemberObj pm) = Inl TypeError) \<and>
   (PartialMember.name ar = JStr s4 \<longrightarrow> py_str R A (ArtistObj ar) = Inr s4) \<and>
   ((\<forall>s. PartialMember.name ar \<noteq> JStr s) \<longrightarrow> py_str R A (ArtistObj ar) = Inl TypeError) \<and>
   (PartialMember.name pa = JStr s5 \<longrightarrow> py_str R A (PostAuthorObj pa) = Inr s5) \<and>
   ((\<forall>s. PartialMember.name pa \<noteq> JStr s) \<longrightarrow>
      py_str R A (PostAuthorObj pa) = Inl TypeError) \<and>
   (PartialMember.name me = JStr s6 \<longrightarrow> py_str R A (MemberObj me) = Inr s6) \<and>
   ((\<forall>s. PartialMember.name me \<noteq> JStr s) \<longrightarrow> py_str R A (MemberObj me) = Inl TypeError) \<and>
   (PostLike.plain_body po = JStr s7 \<longrightarrow> py_str R A (PostObj po) = Inr s7) \<and>
   ((\<forall>s. PostLike.plain_body po \<noteq> JStr s) \<longrightarrow> py_str R A (PostObj po) = Inl TypeError) \<and>
   (Photo_init d1 = Inr ph \<longrightarrow> subscript d1 ''url'' = Inr (JStr s1) \<longrightarrow>
      py_str R A (PhotoObj ph) = Inr s1) \<and>
   (Snippet_init d2 = Inr sn \<longrightarrow> subscript d2 ''title'' = Inr (JStr s2) \<longrightarrow>
      py_str R A (SnippetObj sn) = Inr s2) \<and>
   (PartialMember_init d3 = Inr pm \<longrightarrow> subscript d3 ''profileName'' = Inr (JStr s3) \<longrightarrow>
      py_str R A (PartialMemberObj pm) = Inr s3) \<and>
   (Artist_init d4 = Inr ar \<longrightarrow> subscript d4 ''profileName'' = Inr (JStr s4) \<longrightarrow>
      py_str R A (ArtistObj ar) = Inr s4) \<and>
   (PostAuthor_init d5 = Inr pa \<longrightarrow> subscript d5 ''profileName'' = Inr (JStr s5) \<longrightarrow>
      py_str R A (PostAuthorObj pa) = Inr s5) \<and>
   (Member_init d6 = Inr me \<longrightarrow> subscript d6 ''profileName'' = Inr (JStr s6) \<longrightarrow>
      py_str R A (MemberObj me) = Inr s6) \<and>
   (Post_init C d7 = Inr po \<longrightarrow> subscript d7 ''plainBody'' = Inr (JStr s7) \<longrightarrow>
      py_str R A (PostObj po) = Inr s7) \<and>
   py_str R A (VideoObj vi) =
     Inr (''Video video_id='' @ format_value R (Video.id vi) @
          '', duration='' @ format_value R (Video.duration vi)) \<and>
   (Video.id vi = JStr i \<longrightarrow>
      (\<exists>t. py_str R A (VideoObj vi) = Inr (''Video video_id='' @ i @ t))) \<and>
   py_str R A (PostLikeObj pl) =
     Inr (''<weverse.objects.post.PostLike object at '' @ A (PostLikeObj pl) @ ''>'')"
  (is "?p1 \<and> ?p2 \<and> ?s1 \<and> ?s2 \<and> ?m1 \<and> ?m2 \<and> ?a1 \<and> ?a2 \<and> ?u1 \<and> ?u2 \<and> ?e1 \<and> ?e2 \<and>
       ?o1 \<and> ?o2 \<and> ?cp \<and> ?cs \<and> ?cm \<and> ?ca \<and> ?cu \<and> ?ce \<and> ?co \<and> ?v1 \<and> ?v2 \<and> ?l")
proof -
  have not_str: "str_result v = Inl TypeError" if "\<forall>s. v \<noteq> JStr s" for v
    using that by (cases v) simp_all
  have ?p1 and ?s1 and ?m1 and ?a1 and ?u1 and ?e1 and ?o1
    by (simp_all add: Photo_str_def Snippet_str_def PartialMember_str_def Post_str_def)
  moreover have ?p2 and ?s2 and ?m2 and ?a2 and ?u2 and ?e2 and ?o2
    by (simp_all add: Photo_str_def Snippet_str_def PartialMember_str_def Post_str_def not_str)
  moreover have ?cp
    by (auto simp: Photo_init_eq_Inr Photo_str_def)
  moreover have ?cs
    by (auto simp: Snippet_init_eq_Inr Snippet_str_def)
  moreover have ?cm
    by (auto simp: PartialMember_init_eq_Inr PartialMember_str_def)
  moreover have ?ca
    by (auto simp: Artist_init_eq_Inr PartialMember_init_eq_Inr PartialMember_str_def
          PartialMember.defs)
  moreover have ?cu
    by (auto simp: PostAuthor_init_eq_Inr PartialMember_init_eq_Inr PartialMember_str_def
          PartialMember.defs)
  moreover have ?ce
    by (auto simp: Member_init_eq_Inr PartialMember_init_eq_Inr PartialMember_str_def
          PartialMember.defs)
  moreover have ?co
    by (auto simp: Post_init_def PostLike_init_eq_Inr Post_str_def)
  moreover have ?v1
    by (simp add: Video_str_def Video_repr_def)
  moreover have ?v2
    by (simp add: Video_str_def Video_repr_def)
  moreover have ?l
    by (simp add: PostLike_str_def)
  ultimately show ?thesis
    by (intro conjI)
qed

theorem string_conversion_witness:
  "py_str example_repr example_address (PhotoObj photo_object) = Inr ''http://x/1.jpg'' \<and>
   Photo.id photo_object = JStr ''p1'' \<and>
   py_str example_repr example_address (SnippetObj snippet_object) = Inr ''A title'' \<and>
   py_str example_repr example_address (PartialMemberObj partial_member_object) = Inr ''Ann'' \<and>
   py_str example_repr example_address (ArtistObj artist_object) = Inr ''Ann'' \<and>
   py_str example_repr example_address (PostAuthorObj author_object) = Inr ''Ann'' \<and>
   py_str example_repr example_address (MemberObj member_object) = Inr ''Ann'' \<and>
   py_str example_repr example_address (PostObj post_object) = Inr ''hello'' \<and>
   py_str example_repr example_address (PhotoObj (photo_object\<lparr>Photo.url := JNull\<rparr>))
     = Inl TypeError \<and>
   (\<exists>t. py_str example_repr example_address (VideoObj video_object)
      = Inr (''Video video_id='' @ ''v1'' @ t))"
  using string_conversion [where R = example_repr and A = example_address
      and ph = photo_object and ?s1.0 = "''http://x/1.jpg''" and ?d1.0 = photo_payload
      and sn = snippet_object and ?s2.0 = "''A title''" and ?d2.0 = snippet_payload
      and pm = partial_member_object and ?s3.0 = "''Ann''" and ?d3.0 = member_payload
      and ar = artist_object and ?s4.0 = "''Ann''" and ?d4.0 = member_payload
      and pa = author_object and ?s5.0 = "''Ann''" and ?d5.0 = member_payload
      and me = member_object and ?s6.0 = "''Ann''" and ?d6.0 = member_payload
      and po = post_object and ?s7.0 = "''hello''" and ?d7.0 = post_payload
      and C = raw_community and vi = video_object and i = "''v1''" and pl = post_object]
    string_conversion [where R = example_repr and A = example_address
      and ph = "photo_object\<lparr>Photo.url := JNull\<rparr>" and ?s1.0 = "''''" and ?d1.0 = JNull
      and sn = snippet_object and ?s2.0 = "''A title''" and ?d2.0 = snippet_payload
      and pm = partial_member_object and ?s3.0 = "''Ann''" and ?d3.0 = member_payload
      and ar = artist_object and ?s4.0 = "''Ann''" and ?d4.0 = member_payload
      and pa = author_object and ?s5.0 = "''Ann''" and ?d5.0 = member_payload
      and me = member_object and ?s6.0 = "''Ann''" and ?d6.0 = member_payload
      and po = post_object and ?s7.0 = "''hello''" and ?d7.0 = post_payload
      and C = raw_community and vi = video_object and i = "''v1''" and pl = post_object]
  by (simp add: example_object_defs)

text \<open>\<^verbatim>\<open>str\<close> of a video is a text made from its id and its duration, \<^verbatim>\<open>str\<close> of an object of
  class \<^verbatim>\<open>PostLike\<close> shows no attribute at all, and \<^verbatim>\<open>str\<close> of a photo constructed from a
  payload whose \<^verbatim>\<open>url\<close> is \<^verbatim>\<open>null\<close> raises \<^verbatim>\<open>TypeError\<close>.\<close>

theorem string_conversion_counterexample:
  "py_str example_repr example_address (VideoObj video_object)
     = Inr ''Video video_id=v1, duration=12'' \<and>
   Video.id video_object = JStr ''v1'' \<and>
   py_str example_repr example_address (PostLikeObj post_object)
     = Inr ''<weverse.objects.post.PostLike object at 0x7f00>'' \<and>
   Photo_init photo_payload_null_url =
     Inr \<lparr>Photo.data = photo_payload_null_url, Photo.id = JStr ''p3'', Photo.url = JNull,
          Photo.height = JInt 1, Photo.width = JInt 1\<rparr> \<and>
   py_str example_repr example_address
     (PhotoObj \<lparr>Photo.data = photo_payload_null_url, Photo.id = JStr ''p3'',
        Photo.url = JNull, Photo.height = JInt 1, Photo.width = JInt 1\<rparr>) = Inl TypeError"
proof -
  have "decimal 12 = ''12''"
    by (simp add: decimal.simps digit_def)
  then show ?thesis
    by (simp add: Video_str_def Video_repr_def str_int_def video_object_def PostLike_str_def
          example_address_def Photo_str_def Photo_init_def)
       (simp add: photo_payload_null_url_def)
qed

section \<open>The attachment accessors of a post\<close>

lemma accessors_without_attachment:
  assumes "PostLike.data self = JObj kvs" and "map_of kvs ''attachment'' = None"
  shows "photos self = Inl (KeyError ''attachment'')"
    and "videos self = Inl (KeyError ''attachment'')"
    and "snippets self = Inl (KeyError ''attachment'')"
  using assms by (simp_all add: photos_def videos_def snippets_def)

lemma photos_with_attachment:
  assumes "PostLike.data self = JObj kvs" and "map_of kvs ''attachment'' = Some (JObj att)"
  shows "photos self =
    (case map_of att ''photo'' of None \<Rightarrow> Inr []
     | Some b \<Rightarrow> if truthy b then bindE (values_of b) (mapE Photo_init) else Inr [])"
  using assms by (simp add: photos_def subscript2_def split: option.splits)

lemma videos_with_attachment:
  assumes "PostLike.data self = JObj kvs" and "map_of kvs ''attachment'' = Some (JObj att)"
  shows "videos self =
    (case map_of att ''video'' of None \<Rightarrow> Inr []
     | Some b \<Rightarrow> if truthy b then bindE (values_of b) (mapE Video_init) else Inr [])"
  using assms by (simp add: videos_def subscript2_def split: option.splits)

lemma snippets_with_attachment:
  assumes "PostLike.data self = JObj kvs" and "map_of kvs ''attachment'' = Some (JObj att)"
  shows "snippets self =
    (case map_of att ''snippet'' of None \<Rightarrow> Inr []
     | Some b \<Rightarrow> if truthy b then bindE (values_of b) (mapE Snippet_init) else Inr [])"
  using assms by (simp add: snippets_def subscript2_def split: option.splits)

text \<open>The leaves of a bucket: one per entry, at the entry's position.\<close>

lemma bucket_leaves:
  "(if truthy (JObj es) then bindE (values_of (JObj es)) (mapE f) else Inr []) = Inr ys \<longleftrightarrow>
     length ys = length es \<and> (\<forall>i<length es. f (snd (es ! i)) = Inr (ys ! i))"
proof (cases "es = []")
  case True
  then show ?thesis by auto
next
  case False
  have "mapE f (map snd es) = Inr ys \<longleftrightarrow>
      length ys = length es \<and> (\<forall>i<length es. f (snd (es ! i)) = Inr (ys ! i))"
    unfolding mapE_eq_Inr list_all2_conv_all_nth by auto
  with False show ?thesis by simp
qed


text \<open>
  What the three accessors compute. When the \<^verbatim>\<open>attachment\<close> section is a mapping, an
  accessor returns the empty list for a bucket that is absent or an empty mapping, and for
  a bucket of entries it returns a list exactly when every entry constructs: then the list
  has one leaf per entry, the leaf at position \<open>i\<close> built from the value of the \<open>i\<close>-th
  entry in key-insertion order. On a payload without the \<^verbatim>\<open>attachment\<close> key the subscript
  \<^verbatim>\<open>self.data["attachment"]\<close> raises before the bucket is looked at.
\<close>

lemma attachment_accessors:
  assumes "PostLike.data self = JObj kvs"
  shows
    "(map_of kvs ''attachment'' = None \<longrightarrow>
        photos self = Inl (KeyError ''attachment'') \<and>
        videos self = Inl (KeyError ''attachment'') \<and>
        snippets self = Inl (KeyError ''attachment'')) \<and>
     (map_of kvs ''attachment'' = Some (JObj att) \<longrightarrow>
        (map_of att ''photo'' = None \<longrightarrow> photos self = Inr []) \<and>
        (map_of att ''video'' = None \<longrightarrow> videos self = Inr []) \<and>
        (map_of att ''snippet'' = None \<longrightarrow> snippets self = Inr []) \<and>
        (map_of att ''photo'' = Some (JObj []) \<longrightarrow> photos self = Inr []) \<and>
        (map_of att ''video'' = Some (JObj []) \<longrightarrow> videos self = Inr []) \<and>
        (map_of att ''snippet'' = Some (JObj []) \<longrightarrow> snippets self = Inr []) \<and>
        (map_of att ''photo'' = Some (JObj pes) \<longrightarrow>
           (photos self = Inr ps \<longleftrightarrow>
              length ps = length pes \<and>
              (\<forall>i<length pes. Photo_init (snd (pes ! i)) = Inr (ps ! i)))) \<and>
        (map_of att ''video'' = Some (JObj ves) \<longrightarrow>
           (videos self = Inr vs \<longleftrightarrow>
              length vs = length ves \<and>
              (\<forall>i<length ves. Video_init (snd (ves ! i)) = Inr (vs ! i)))) \<and>
        (map_of att ''snippet'' = Some (JObj ses) \<longrightarrow>
           (snippets self = Inr ss \<longleftrightarrow>
              length ss = length ses \<and>
              (\<forall>i<length ses. Snippet_init (snd (ses ! i)) = Inr (ss ! i)))))"
proof (intro conjI impI)
  assume "map_of kvs ''attachment'' = None"
  with assms show "photos self = Inl (KeyError ''attachment'')"
    and "videos self = Inl (KeyError ''attachment'')"
    and "snippets self = Inl (KeyError ''attachment'')"
    by (rule accessors_without_attachment)+
next
  assume att: "map_of kvs ''attachment'' = Some (JObj att)"
  note p = photos_with_attachment [OF assms att]
    and v = videos_with_attachment [OF assms att]
    and s = snippets_with_attachment [OF assms att]
  {
    assume "map_of att ''photo'' = None"
    then show "photos self = Inr []" by (simp add: p)
  next
    assume "map_of att ''video'' = None"
    then show "videos self = Inr []" by (simp add: v)
  next
    assume "map_of att ''snippet'' = None"
    then show "snippets self = Inr []" by (simp add: s)
  next
    assume "map_of att ''photo'' = Some (JObj [])"
    then show "photos self = Inr []" by (simp add: p)
  next
    assume "map_of att ''video'' = Some (JObj [])"
    then show "videos self = Inr []" by (simp add: v)
  next
    assume "map_of att ''snippet'' = Some (JObj [])"
    then show "snippets self = Inr []" by (simp add: s)
  next
    assume "map_of att ''photo'' = Some (JObj pes)"
    then show "photos self = Inr ps \<longleftrightarrow>
        length ps = length pes \<and> (\<forall>i<length pes. Photo_init (snd (pes ! i)) = Inr (ps ! i))"
      unfolding p by (simp only: option.case bucket_leaves)
  next
    assume "map_of att ''video'' = Some (JObj ves)"
    then show "videos self = Inr vs \<longleftrightarrow>
        length vs = length ves \<and> (\<forall>i<length ves. Video_init (snd (ves ! i)) = Inr (vs ! i))"
      unfolding v by (simp only: option.case bucket_leaves)
  next
    assume "map_of att ''snippet'' = Some (JObj ses)"
    then show "snippets self = Inr ss \<longleftrightarrow>
        length ss = length ses \<and> (\<forall>i<length ses. Snippet_init (snd (ses ! i)) = Inr (ss ! i))"
      unfolding s by (simp only: option.case bucket_leaves)
  }
qed

lemma attachment_accessors_example:
  "photos post_object = Inr [photo_object, photo2_object] \<and>
   videos post_object = Inr [video_object] \<and>
   snippets post_object = Inr [] \<and>
   photos (post_object\<lparr>PostLike.data := post_payload_no_attachment\<rparr>)
     = Inl (KeyError ''attachment'')"
proof -
  have d: "PostLike.data post_object =
      JObj (post_fields @ [(''attachment'', JObj attachment_fields)])"
    by (simp add: post_object_def post_payload_def)
  have a: "map_of (post_fields @ [(''attachment'', JObj attachment_fields)]) ''attachment''
      = Some (JObj attachment_fields)"
    by (simp add: post_fields_def)
  have p: "map_of attachment_fields ''photo'' = Some (JObj photo_bucket)"
    and v: "map_of attachment_fields ''video'' = Some (JObj video_bucket)"
    and s: "map_of attachment_fields ''snippet'' = Some (JObj [])"
    by (simp_all add: attachment_fields_def)
  have ps: "length [photo_object, photo2_object] = length photo_bucket \<and>
      (\<forall>i<length photo_bucket.
         Photo_init (snd (photo_bucket ! i)) = Inr ([photo_object, photo2_object] ! i))"
    by (auto simp: photo_bucket_def less_Suc_eq Photo_init_example Photo_init_example2)
  have vs: "length [video_object] = length video_bucket \<and>
      (\<forall>i<length video_bucket. Video_init (snd (video_bucket ! i)) = Inr ([video_object] ! i))"
    by (simp add: video_bucket_def Video_init_example)
  note with_att = attachment_accessors [OF d, of attachment_fields photo_bucket
      "[photo_object, photo2_object]" video_bucket "[video_object]" "[]" "[]"]
  have d0: "PostLike.data (post_object\<lparr>PostLike.data := post_payload_no_attachment\<rparr>) =
      JObj post_fields"
    by (simp add: post_payload_no_attachment_def)
  have a0: "map_of post_fields ''attachment'' = None"
    by (simp add: post_fields_def)
  note without_att = attachment_accessors [OF d0]
  from with_att a p v s ps vs without_att a0 show ?thesis by simp
qed

text \<open>
  Claim C1. Each accessor returns one leaf per entry of its bucket, in key-insertion order,
  and all three return empty sequences when the payload has no \<^verbatim>\<open>attachment\<close> section.
  The first part is \<open>attachment_accessors\<close>. The second part is what the docstrings of the
  three properties promise (\<^verbatim>\<open>Returns an empty list if there are no photos\<close>, and the same
  for videos and snippets), and the code does not do it: the payload below has no
  \<^verbatim>\<open>attachment\<close> key, \<^verbatim>\<open>Post\<close> constructs from it, and each of the three accessors then
  raises \<^verbatim>\<open>KeyError\<close>. The bucket is read with \<^verbatim>\<open>.get\<close>, the section around it with a
  subscript.
\<close>

theorem absent_attachment_section_raises:
  "Post_init raw_community post_payload_no_attachment =
     Inr (post_object\<lparr>PostLike.data := post_payload_no_attachment\<rparr>) \<and>
   photos (post_object\<lparr>PostLike.data := post_payload_no_attachment\<rparr>)
     = Inl (KeyError ''attachment'') \<and>
   videos (post_object\<lparr>PostLike.data := post_payload_no_attachment\<rparr>)
     = Inl (KeyError ''attachment'') \<and>
   snippets (post_object\<lparr>PostLike.data := post_payload_no_attachment\<rparr>)
     = Inl (KeyError ''attachment'')"
proof -
  have "map_of post_fields ''attachment'' = None"
    by (simp add: post_fields_def)
  then show ?thesis
    by (simp add: Post_init_no_attachment_example photos_def videos_def snippets_def)
       (simp add: post_payload_no_attachment_def)
qed

section \<open>Presence tests: by truth value and by key\<close>

lemma Snippet_init_falsy_image:
  assumes "\<forall>k \<in> set [''snippetId'', ''url'', ''title'', ''description'', ''domain''].
             map_of kvs k \<noteq> None"
    and "snippet_thumbnail (JObj kvs) = Inr JNull"
  shows "\<exists>s. Snippet_init (JObj kvs) = Inr s \<and> Snippet.thumbnail_url s = JNull"
  using assms unfolding Snippet_init_eq_Inr by auto

lemma ArtistProfile_init_falsy: "\<not> truthy pj \<Longrightarrow> isl (ArtistProfile_init pj)"
  by (cases pj) (auto simp: isl_iff_no_result ArtistProfile_init_eq_Inr)

lemma follower_count_of_falsy: "\<not> truthy c \<Longrightarrow> isl (subscript c ''followerCount'')"
  by (cases c) auto

text \<open>
  Claim C9, as the code has it. The buckets of the \<^verbatim>\<open>attachment\<close> section and the \<^verbatim>\<open>image\<close>
  of a snippet are tested by truth value: a post whose \<^verbatim>\<open>attachment\<close> section maps \<^verbatim>\<open>photo\<close>,
  \<^verbatim>\<open>video\<close> or \<^verbatim>\<open>snippet\<close> to a false value (\<^verbatim>\<open>None\<close> and the empty mapping are false)
  returns the empty list from the accessor, and a snippet payload whose \<^verbatim>\<open>image\<close> key holds
  a false value gives \<^verbatim>\<open>None\<close> as \<^verbatim>\<open>thumbnail_url\<close>, the construction succeeding when the
  five required keys are present. The other two optional sub-objects are tested by key
  membership, with \<^verbatim>\<open>in\<close>: when \<^verbatim>\<open>followCount\<close> (of a \<^verbatim>\<open>Member\<close>) or
  \<^verbatim>\<open>artistOfficialProfile\<close> (of a \<^verbatim>\<open>Member\<close> or a \<^verbatim>\<open>PostAuthor\<close>) is absent the attribute is
  \<^verbatim>\<open>None\<close>, and when the key is present its value is read whatever it is, so that a
  present false value makes the construction fail: \<^verbatim>\<open>TypeError\<close> for \<^verbatim>\<open>null\<close>, \<^verbatim>\<open>KeyError\<close>
  for the empty mapping.
\<close>

theorem presence_tests:
  "\<not> truthy JNull \<and> \<not> truthy (JObj []) \<and>
   (PostLike.data self = JObj kvs \<longrightarrow> map_of kvs ''attachment'' = Some (JObj att) \<longrightarrow>
      (map_of att ''photo'' = Some b1 \<longrightarrow> \<not> truthy b1 \<longrightarrow> photos self = Inr []) \<and>
      (map_of att ''video'' = Some b2 \<longrightarrow> \<not> truthy b2 \<longrightarrow> videos self = Inr []) \<and>
      (map_of att ''snippet'' = Some b3 \<longrightarrow> \<not> truthy b3 \<longrightarrow> snippets self = Inr [])) \<and>
   (map_of sk ''image'' = Some im \<longrightarrow> \<not> truthy im \<longrightarrow>
      snippet_thumbnail (JObj sk) = Inr JNull \<and>
      ((\<forall>k \<in> set [''snippetId'', ''url'', ''title'', ''description'', ''domain''].
          map_of sk k \<noteq> None) \<longrightarrow>
       (\<exists>s. Snippet_init (JObj sk) = Inr s \<and> Snippet.thumbnail_url s = JNull))) \<and>
   (map_of mk ''followCount'' = None \<longrightarrow> member_follow_count (JObj mk) = Inr JNull) \<and>
   (map_of mk ''followCount'' = Some c \<longrightarrow>
      member_follow_count (JObj mk) = subscript c ''followerCount'' \<and>
      (c = JNull \<longrightarrow> member_follow_count (JObj mk) = Inl TypeError) \<and>
      (c = JObj [] \<longrightarrow> member_follow_count (JObj mk) = Inl (KeyError ''followerCount'')) \<and>
      (\<not> truthy c \<longrightarrow> isl (Member_init (JObj mk)))) \<and>
   (map_of ak ''artistOfficialProfile'' = None \<longrightarrow>
      optional_artist_profile (JObj ak) = Inr None) \<and>
   (map_of ak ''artistOfficialProfile'' = Some pj \<longrightarrow>
      optional_artist_profile (JObj ak) = bindE (ArtistProfile_init pj) (\<lambda>ap. Inr (Some ap)) \<and>
      (pj = JNull \<longrightarrow> optional_artist_profile (JObj ak) = Inl TypeError) \<and>
      (pj = JObj [] \<longrightarrow> optional_artist_profile (JObj ak) = Inl (KeyError ''officialName'')) \<and>
      (\<not> truthy pj \<longrightarrow> isl (PostAuthor_init (JObj ak)) \<and> isl (Member_init (JObj ak))))"
  (is "?null \<and> ?empty \<and> ?buckets \<and> ?image \<and> ?nocount \<and> ?count \<and> ?noprofile \<and> ?profile")
proof -
  have ?null and ?empty by simp_all
  moreover have ?buckets
  proof (intro conjI impI)
    assume d: "PostLike.data self = JObj kvs"
      and a: "map_of kvs ''attachment'' = Some (JObj att)"
    {
      assume "map_of att ''photo'' = Some b1" and "\<not> truthy b1"
      then show "photos self = Inr []" by (simp add: photos_with_attachment [OF d a])
    next
      assume "map_of att ''video'' = Some b2" and "\<not> truthy b2"
      then show "videos self = Inr []" by (simp add: videos_with_attachment [OF d a])
    next
      assume "map_of att ''snippet'' = Some b3" and "\<not> truthy b3"
      then show "snippets self = Inr []" by (simp add: snippets_with_attachment [OF d a])
    }
  qed
  moreover have ?image
  proof (intro conjI impI)
    assume im: "map_of sk ''image'' = Some im" "\<not> truthy im"
    then show th: "snippet_thumbnail (JObj sk) = Inr JNull"
      by (simp add: snippet_thumbnail_JObj)
    assume "\<forall>k \<in> set [''snippetId'', ''url'', ''title'', ''description'', ''domain''].
        map_of sk k \<noteq> None"
    then show "\<exists>s. Snippet_init (JObj sk) = Inr s \<and> Snippet.thumbnail_url s = JNull"
      using th by (rule Snippet_init_falsy_image)
  qed
  moreover have ?nocount
    by (simp add: member_follow_count_JObj)
  moreover have ?count
  proof (intro conjI impI)
    assume c: "map_of mk ''followCount'' = Some c"
    then show fc: "member_follow_count (JObj mk) = subscript c ''followerCount''"
      by (simp add: member_follow_count_JObj)
    {
      assume "c = JNull"
      then show "member_follow_count (JObj mk) = Inl TypeError" by (simp add: fc)
    next
      assume "c = JObj []"
      then show "member_follow_count (JObj mk) = Inl (KeyError ''followerCount'')"
        by (simp add: fc)
    next
      assume "\<not> truthy c"
      then have "isl (member_follow_count (JObj mk))"
        unfolding fc by (rule follower_count_of_falsy)
      then show "isl (Member_init (JObj mk))"
        by (auto simp: isl_iff_no_result Member_init_eq_Inr)
    }
  qed
  moreover have ?noprofile
    by (simp add: optional_artist_profile_def)
  moreover have ?profile
  proof (intro conjI impI)
    assume p: "map_of ak ''artistOfficialProfile'' = Some pj"
    then show ap: "optional_artist_profile (JObj ak) =
        bindE (ArtistProfile_init pj) (\<lambda>ap. Inr (Some ap))"
      by (simp add: optional_artist_profile_def)
    {
      assume "pj = JNull"
      then show "optional_artist_profile (JObj ak) = Inl TypeError"
        by (simp add: ap ArtistProfile_init_def)
    next
      assume "pj = JObj []"
      then show "optional_artist_profile (JObj ak) = Inl (KeyError ''officialName'')"
        by (simp add: ap ArtistProfile_init_def)
    next
      assume "\<not> truthy pj"
      then have "isl (ArtistProfile_init pj)" by (rule ArtistProfile_init_falsy)
      then have no: "\<forall>r. optional_artist_profile (JObj ak) \<noteq> Inr r"
        unfolding ap by (cases "ArtistProfile_init pj") simp_all
      then show "isl (PostAuthor_init (JObj ak))" and "isl (Member_init (JObj ak))"
        by (auto simp: isl_iff_no_result PostAuthor_init_eq_Inr Member_init_eq_Inr)
    }
  qed
  ultimately show ?thesis
    by (intro conjI)
qed

theorem presence_tests_witness:
  "photos (post_object\<lparr>PostLike.data := JObj [(''attachment'',
       JObj [(''photo'', JNull), (''video'', JObj []), (''snippet'', JObj [])])]\<rparr>) = Inr [] \<and>
   videos (post_object\<lparr>PostLike.data := JObj [(''attachment'',
       JObj [(''photo'', JNull), (''video'', JObj []), (''snippet'', JObj [])])]\<rparr>) = Inr [] \<and>
   snippets (post_object\<lparr>PostLike.data := JObj [(''attachment'',
       JObj [(''photo'', JNull), (''video'', JObj []), (''snippet'', JObj [])])]\<rparr>) = Inr [] \<and>
   snippet_thumbnail (JObj [(''snippetId'', JStr ''s1''), (''url'', JStr ''http://y/''),
       (''title'', JStr ''A title''), (''description'', JStr ''A text''),
       (''domain'', JStr ''y''), (''image'', JNull)]) = Inr JNull \<and>
   (\<exists>s. Snippet_init (JObj [(''snippetId'', JStr ''s1''), (''url'', JStr ''http://y/''),
       (''title'', JStr ''A title''), (''description'', JStr ''A text''),
       (''domain'', JStr ''y''), (''image'', JNull)]) = Inr s \<and>
      Snippet.thumbnail_url s = JNull) \<and>
   member_follow_count member_payload_null_follow_count = Inl TypeError \<and>
   isl (Member_init member_payload_null_follow_count) \<and>
   optional_artist_profile author_payload_null_profile = Inl TypeError \<and>
   isl (PostAuthor_init author_payload_null_profile) \<and>
   member_follow_count (JObj []) = Inr JNull \<and>
   optional_artist_profile (JObj []) = Inr None"
proof -
  have c: "map_of null_follow_count_fields ''followCount'' = Some JNull"
    by (simp add: null_follow_count_fields_def)
  have p: "map_of null_profile_fields ''artistOfficialProfile'' = Some JNull"
    by (simp add: null_profile_fields_def)
  from presence_tests [of
      "post_object\<lparr>PostLike.data := JObj [(''attachment'',
         JObj [(''photo'', JNull), (''video'', JObj []), (''snippet'', JObj [])])]\<rparr>"
      "[(''attachment'', JObj [(''photo'', JNull), (''video'', JObj []), (''snippet'', JObj [])])]"
      "[(''photo'', JNull), (''video'', JObj []), (''snippet'', JObj [])]"
      JNull "JObj []" "JObj []"
      "[(''snippetId'', JStr ''s1''), (''url'', JStr ''http://y/''),
        (''title'', JStr ''A title''), (''description'', JStr ''A text''),
        (''domain'', JStr ''y''), (''image'', JNull)]" JNull
      null_follow_count_fields JNull null_profile_fields JNull]
    c p
  show ?thesis
    by (simp add: member_payload_null_follow_count_def author_payload_null_profile_def
          ArtistProfile_init_def member_follow_count_JObj optional_artist_profile_def)
qed

text \<open>A member payload with every required key and \<^verbatim>\<open>"followCount": null\<close>, and an author
  payload with every required key and \<^verbatim>\<open>"artistOfficialProfile": null\<close>: the optional
  sub-object is present with a false value, and the construction raises \<^verbatim>\<open>TypeError\<close>
  where a test by truth value would have given \<^verbatim>\<open>None\<close>.\<close>

theorem key_membership_counterexample:
  "subscript member_payload_null_follow_count ''followCount'' = Inr JNull \<and>
   \<not> truthy JNull \<and>
   Member_init member_payload_null_follow_count = Inl TypeError \<and>
   subscript author_payload_null_profile ''artistOfficialProfile'' = Inr JNull \<and>
   PostAuthor_init author_payload_null_profile = Inl TypeError"
  by (simp add: member_payload_null_follow_count_def null_follow_count_fields_def
        author_payload_null_profile_def null_profile_fields_def
        Member_init_def PostAuthor_init_def PartialMember_init_def member_follow_count_def
        optional_artist_profile_def ArtistProfile_init_def subscript2_def)

section \<open>Required attributes hold the payload's values\<close>




section \<open>Payloads with one key left out\<close>

lemma map_of_delete_same [simp]: "map_of (AList.delete k kvs) k = None"
  by (simp add: delete_conv')

lemma subscript_delete_same [simp]:
  "subscript (JObj (AList.delete k kvs)) k = Inl (KeyError k)"
  by (simp add: delete_conv')

lemma subscript_delete_other [simp]:
  "k' \<noteq> k \<Longrightarrow> subscript (JObj (AList.delete k kvs)) k' = subscript (JObj kvs) k'"
  by simp

lemma get_delete_same [simp]: "get (JObj (AList.delete k kvs)) k = Inr JNull"
  by (simp add: delete_conv')

lemma get_delete_other [simp]:
  "k' \<noteq> k \<Longrightarrow> get (JObj (AList.delete k kvs)) k' = get (JObj kvs) k'"
  by simp

lemma subscript2_delete_other [simp]:
  "k' \<noteq> k \<Longrightarrow>
     subscript2 (JObj (AList.delete k kvs)) k' k2 = subscript2 (JObj kvs) k' k2"
  by (simp add: subscript2_def)

lemma snippet_thumbnail_delete:
  "snippet_thumbnail (JObj (AList.delete k kvs)) =
     (if k = ''image'' then Inr JNull else snippet_thumbnail (JObj kvs))"
  by (simp add: snippet_thumbnail_JObj delete_conv')

lemma member_follow_count_delete:
  "member_follow_count (JObj (AList.delete k kvs)) =
     (if k = ''followCount'' then Inr JNull else member_follow_count (JObj kvs))"
  by (simp add: member_follow_count_JObj delete_conv')

lemma optional_artist_profile_delete:
  "optional_artist_profile (JObj (AList.delete k kvs)) =
     (if k = ''artistOfficialProfile'' then Inr None else optional_artist_profile (JObj kvs))"
  by (simp add: optional_artist_profile_def delete_conv')

lemma PartialMember_init_delete:
  assumes "PartialMember_init (JObj kvs) = Inr base"
  shows "PartialMember_init (JObj (AList.delete k kvs)) =
    (if k \<in> set [''memberId'', ''profileName'', ''profileType''] then Inl (KeyError k)
     else Inr (base\<lparr>PartialMember.data := JObj (AList.delete k kvs),
            PartialMember.image_url :=
              (if k = ''profileImageUrl'' then JNull else PartialMember.image_url base)\<rparr>))"
proof -
  from assms have ok: "subscript (JObj kvs) ''memberId'' = Inr (PartialMember.id base)"
    "subscript (JObj kvs) ''profileName'' = Inr (PartialMember.name base)"
    "get (JObj kvs) ''profileImageUrl'' = Inr (PartialMember.image_url base)"
    "subscript (JObj kvs) ''profileType'' = Inr (PartialMember.profile_type base)"
    and base: "base = \<lparr>PartialMember.data = JObj kvs, PartialMember.id = PartialMember.id base,
      PartialMember.name = PartialMember.name base,
      PartialMember.image_url = PartialMember.image_url base,
      PartialMember.profile_type = PartialMember.profile_type base\<rparr>"
    by (auto simp: PartialMember_init_eq_Inr)
  show ?thesis
    unfolding PartialMember_init_def
    by (subst (2) base) (auto simp: ok simp del: subscript.simps get.simps)
qed

section \<open>A missing required key\<close>





section \<open>An omitted optional key\<close>

lemma PartialMember_init_delete_optional:
  assumes "PartialMember_init (JObj kvs) = Inr base"
    and "k \<noteq> ''memberId''" and "k \<noteq> ''profileName''" and "k \<noteq> ''profileType''"
  shows "PartialMember_init (JObj (AList.delete k kvs)) =
    Inr (base\<lparr>PartialMember.data := JObj (AList.delete k kvs),
           PartialMember.image_url :=
             (if k = ''profileImageUrl'' then JNull else PartialMember.image_url base)\<rparr>)"
  using assms(2-) by (simp only: PartialMember_init_delete [OF assms(1)]) simp

text \<open>
  Claim C4, as the code has it. Take a payload that constructs. Leaving out the key of an
  optional attribute gives a payload that constructs too, into the same object except that
  the attribute is \<^verbatim>\<open>None\<close> (and \<^verbatim>\<open>data\<close> is the new payload). The key left out is the
  attribute's own key for \<^verbatim>\<open>type\<close> and \<^verbatim>\<open>site\<close> of a snippet, \<^verbatim>\<open>image_url\<close> of the four
  member classes, \<^verbatim>\<open>profile_cover_image_url\<close> and \<^verbatim>\<open>profile_comment\<close> of a member and
  \<^verbatim>\<open>like_id\<close> of a post; it is the key of the enclosing sub-object for \<^verbatim>\<open>thumbnail_url\<close>
  (\<^verbatim>\<open>image\<close>), \<^verbatim>\<open>follow_count\<close> (\<^verbatim>\<open>followCount\<close>) and \<^verbatim>\<open>artist_profile\<close> of an author or a
  member (\<^verbatim>\<open>artistOfficialProfile\<close>). Leaving out only the value inside a sub-object that
  stays in the payload is a failure: \<^verbatim>\<open>followCount\<close> without \<^verbatim>\<open>followerCount\<close>, and a
  non-empty \<^verbatim>\<open>image\<close> without \<^verbatim>\<open>url\<close>, raise \<^verbatim>\<open>KeyError\<close>.
\<close>

theorem omitted_optional_key_gives_none:
  "(Snippet_init (JObj kvs1) = Inr sn \<longrightarrow>
        (Snippet_init (JObj (AList.delete ''type'' kvs1)) =
           Inr (sn\<lparr>Snippet.data := JObj (AList.delete ''type'' kvs1),
                 Snippet.type := JNull\<rparr>)) \<and>
        (Snippet_init (JObj (AList.delete ''site'' kvs1)) =
           Inr (sn\<lparr>Snippet.data := JObj (AList.delete ''site'' kvs1),
                 Snippet.site := JNull\<rparr>)) \<and>
        (Snippet_init (JObj (AList.delete ''image'' kvs1)) =
           Inr (sn\<lparr>Snippet.data := JObj (AList.delete ''image'' kvs1),
                 Snippet.thumbnail_url := JNull\<rparr>))) \<and>
   (PartialMember_init (JObj kvs2) = Inr pm \<longrightarrow>
        (PartialMember_init (JObj (AList.delete ''profileImageUrl'' kvs2)) =
           Inr (pm\<lparr>PartialMember.data := JObj (AList.delete ''profileImageUrl'' kvs2),
                 PartialMember.image_url := JNull\<rparr>))) \<and>
   (Artist_init (JObj kvs3) = Inr ar \<longrightarrow>
        (Artist_init (JObj (AList.delete ''profileImageUrl'' kvs3)) =
           Inr (ar\<lparr>PartialMember.data := JObj (AList.delete ''profileImageUrl'' kvs3),
                 PartialMember.image_url := JNull\<rparr>))) \<and>
   (PostAuthor_init (JObj kvs4) = Inr pa \<longrightarrow>
        (PostAuthor_init (JObj (AList.delete ''profileImageUrl'' kvs4)) =
           Inr (pa\<lparr>PartialMember.data := JObj (AList.delete ''profileImageUrl'' kvs4),
                 PartialMember.image_url := JNull\<rparr>)) \<and>
        (PostAuthor_init (JObj (AList.delete ''artistOfficialProfile'' kvs4)) =
           Inr (pa\<lparr>PartialMember.data := JObj (AList.delete ''artistOfficialProfile'' kvs4),
                 PostAuthor.artist_profile := None\<rparr>))) \<and>
   (Member_init (JObj kvs5) = Inr me \<longrightarrow>
        (Member_init (JObj (AList.delete ''profileImageUrl'' kvs5)) =
           Inr (me\<lparr>PartialMember.data := JObj (AList.delete ''profileImageUrl'' kvs5),
                 PartialMember.image_url := JNull\<rparr>)) \<and>
        (Member_init (JObj (AList.delete ''profileCoverImageUrl'' kvs5)) =
           Inr (me\<lparr>PartialMember.data := JObj (AList.delete ''profileCoverImageUrl'' kvs5),
                 Member.profile_cover_image_url := JNull\<rparr>)) \<and>
        (Member_init (JObj (AList.delete ''profileComment'' kvs5)) =
           Inr (me\<lparr>PartialMember.data := JObj (AList.delete ''profileComment'' kvs5),
                 Member.profile_comment := JNull\<rparr>)) \<and>
        (Member_init (JObj (AList.delete ''followCount'' kvs5)) =
           Inr (me\<lparr>PartialMember.data := JObj (AList.delete ''followCount'' kvs5),
                 Member.follow_count := JNull\<rparr>)) \<and>
        (Member_init (JObj (AList.delete ''artistOfficialProfile'' kvs5)) =
           Inr (me\<lparr>PartialMember.data := JObj (AList.delete ''artistOfficialProfile'' kvs5),
                 Member.artist_profile := None\<rparr>))) \<and>
   (PostLike_init C (JObj kvs6) = Inr pl \<longrightarrow>
        (PostLike_init C (JObj (AList.delete ''viewerEmotionId'' kvs6)) =
           Inr (pl\<lparr>PostLike.data := JObj (AList.delete ''viewerEmotionId'' kvs6),
                 PostLike.like_id := JNull\<rparr>)) \<and>
        (Post_init C (JObj (AList.delete ''viewerEmotionId'' kvs6)) =
           Inr (pl\<lparr>PostLike.data := JObj (AList.delete ''viewerEmotionId'' kvs6),
                 PostLike.like_id := JNull\<rparr>))) \<and>
   (map_of kvs7 ''followCount'' = Some (JObj cnt) \<longrightarrow> map_of cnt ''followerCount'' = None \<longrightarrow>
        member_follow_count (JObj kvs7) = Inl (KeyError ''followerCount'') \<and>
        isl (Member_init (JObj kvs7))) \<and>
   (map_of kvs8 ''image'' = Some (JObj im) \<longrightarrow> im \<noteq> [] \<longrightarrow> map_of im ''url'' = None \<longrightarrow>
        snippet_thumbnail (JObj kvs8) = Inl (KeyError ''url'') \<and>
        isl (Snippet_init (JObj kvs8)))"
  (is "?snippet \<and> ?partial \<and> ?artist \<and> ?author \<and> ?member \<and> ?post \<and> ?count \<and> ?image")
proof -
  have ?snippet
  proof (intro conjI impI)
    assume "Snippet_init (JObj kvs1) = Inr sn"
    then obtain i u t de do th where
      ok: "subscript (JObj kvs1) ''snippetId'' = Inr i" "subscript (JObj kvs1) ''url'' = Inr u"
        "subscript (JObj kvs1) ''title'' = Inr t"
        "subscript (JObj kvs1) ''description'' = Inr de"
        "subscript (JObj kvs1) ''domain'' = Inr do" "snippet_thumbnail (JObj kvs1) = Inr th"
      and sn: "sn = \<lparr>Snippet.data = JObj kvs1, Snippet.id = i, Snippet.url = u,
          Snippet.title = t, Snippet.description = de,
          Snippet.type = (case map_of kvs1 ''type'' of None \<Rightarrow> JNull | Some w \<Rightarrow> w),
          Snippet.site = (case map_of kvs1 ''site'' of None \<Rightarrow> JNull | Some w \<Rightarrow> w),
          Snippet.domain = do, Snippet.thumbnail_url = th\<rparr>"
      by (auto simp: Snippet_init_eq_Inr)
    show "Snippet_init (JObj (AList.delete ''type'' kvs1)) =
           Inr (sn\<lparr>Snippet.data := JObj (AList.delete ''type'' kvs1),
                 Snippet.type := JNull\<rparr>)"
      unfolding Snippet_init_def sn
      by (simp add: ok snippet_thumbnail_delete del: subscript.simps)
    show "Snippet_init (JObj (AList.delete ''site'' kvs1)) =
           Inr (sn\<lparr>Snippet.data := JObj (AList.delete ''site'' kvs1),
                 Snippet.site := JNull\<rparr>)"
      unfolding Snippet_init_def sn
      by (simp add: ok snippet_thumbnail_delete del: subscript.simps)
    show "Snippet_init (JObj (AList.delete ''image'' kvs1)) =
           Inr (sn\<lparr>Snippet.data := JObj (AList.delete ''image'' kvs1),
                 Snippet.thumbnail_url := JNull\<rparr>)"
      unfolding Snippet_init_def sn
      by (simp add: ok snippet_thumbnail_delete del: subscript.simps)
  qed
  moreover have ?partial
  proof
    assume "PartialMember_init (JObj kvs2) = Inr pm"
    from PartialMember_init_delete_optional [OF this, of "''profileImageUrl''"]
    show "PartialMember_init (JObj (AList.delete ''profileImageUrl'' kvs2)) =
           Inr (pm\<lparr>PartialMember.data := JObj (AList.delete ''profileImageUrl'' kvs2),
                 PartialMember.image_url := JNull\<rparr>)"
      by simp
  qed
  moreover have ?artist
  proof
    assume "Artist_init (JObj kvs3) = Inr ar"
    then obtain base c pj ap j where
      base: "PartialMember_init (JObj kvs3) = Inr base"
      and ok: "subscript (JObj kvs3) ''communityId'' = Inr c"
        "subscript (JObj kvs3) ''artistOfficialProfile'' = Inr pj"
        "ArtistProfile_init pj = Inr ap" "subscript (JObj kvs3) ''joinedDate'' = Inr j"
      and ar: "ar = PartialMember.extend base (Artist.fields c ap j)"
      by (auto simp: Artist_init_eq_Inr)
    note pm = PartialMember_init_delete_optional [OF base]
    show "Artist_init (JObj (AList.delete ''profileImageUrl'' kvs3)) =
           Inr (ar\<lparr>PartialMember.data := JObj (AList.delete ''profileImageUrl'' kvs3),
                 PartialMember.image_url := JNull\<rparr>)"
      unfolding Artist_init_def ar
      by (simp add: pm ok PartialMember.defs Artist.defs del: subscript.simps)
  qed
  moreover have ?author
  proof (intro conjI impI)
    assume "PostAuthor_init (JObj kvs4) = Inr pa"
    then obtain base c j off st my ap where
      base: "PartialMember_init (JObj kvs4) = Inr base"
      and ok: "subscript (JObj kvs4) ''communityId'' = Inr c"
        "subscript (JObj kvs4) ''joined'' = Inr j"
        "subscript (JObj kvs4) ''hasOfficialMark'' = Inr off"
        "subscript (JObj kvs4) ''profileSpaceStatus'' = Inr st"
        "subscript (JObj kvs4) ''myProfile'' = Inr my"
        "optional_artist_profile (JObj kvs4) = Inr ap"
      and pa: "pa = PartialMember.extend base
          (PostAuthor.fields c j off (st = JStr ''ACCESSIBLE'') my ap)"
      by (auto simp: PostAuthor_init_eq_Inr)
    note pm = PartialMember_init_delete_optional [OF base]
    show "PostAuthor_init (JObj (AList.delete ''profileImageUrl'' kvs4)) =
           Inr (pa\<lparr>PartialMember.data := JObj (AList.delete ''profileImageUrl'' kvs4),
                 PartialMember.image_url := JNull\<rparr>)"
      unfolding PostAuthor_init_def pa
      by (simp add: pm ok optional_artist_profile_delete PartialMember.defs PostAuthor.defs
            del: subscript.simps)
    show "PostAuthor_init (JObj (AList.delete ''artistOfficialProfile'' kvs4)) =
           Inr (pa\<lparr>PartialMember.data := JObj (AList.delete ''artistOfficialProfile'' kvs4),
                 PostAuthor.artist_profile := None\<rparr>)"
      unfolding PostAuthor_init_def pa
      by (simp add: pm ok optional_artist_profile_delete PartialMember.defs PostAuthor.defs
            del: subscript.simps)
  qed
  moreover have ?member
  proof (intro conjI impI)
    assume "Member_init (JObj kvs5) = Inr me"
    then obtain base c j mem off hid bli fol my fj fc ap where
      base: "PartialMember_init (JObj kvs5) = Inr base"
      and ok: "subscript (JObj kvs5) ''communityId'' = Inr c"
        "subscript (JObj kvs5) ''joined'' = Inr j"
        "subscript (JObj kvs5) ''hasMembership'' = Inr mem"
        "subscript (JObj kvs5) ''hasOfficialMark'' = Inr off"
        "subscript (JObj kvs5) ''hidden'' = Inr hid" "subscript (JObj kvs5) ''blinded'' = Inr bli"
        "subscript (JObj kvs5) ''followed'' = Inr fol"
        "subscript (JObj kvs5) ''myProfile'' = Inr my"
        "subscript (JObj kvs5) ''firstJoinAt'' = Inr fj"
        "member_follow_count (JObj kvs5) = Inr fc"
        "optional_artist_profile (JObj kvs5) = Inr ap"
      and me: "me = PartialMember.extend base
          (Member.fields c
             (case map_of kvs5 ''profileCoverImageUrl'' of None \<Rightarrow> JNull | Some w \<Rightarrow> w)
             (case map_of kvs5 ''profileComment'' of None \<Rightarrow> JNull | Some w \<Rightarrow> w)
             j mem off hid bli fol my fj fc ap)"
      by (auto simp: Member_init_eq_Inr)
    note pm = PartialMember_init_delete_optional [OF base]
    show "Member_init (JObj (AList.delete ''profileImageUrl'' kvs5)) =
           Inr (me\<lparr>PartialMember.data := JObj (AList.delete ''profileImageUrl'' kvs5),
                 PartialMember.image_url := JNull\<rparr>)"
      unfolding Member_init_def me
      by (simp add: pm ok member_follow_count_delete optional_artist_profile_delete
            PartialMember.defs Member.defs del: subscript.simps)
    show "Member_init (JObj (AList.delete ''profileCoverImageUrl'' kvs5)) =
           Inr (me\<lparr>PartialMember.data := JObj (AList.delete ''profileCoverImageUrl'' kvs5),
                 Member.profile_cover_image_url := JNull\<rparr>)"
      unfolding Member_init_def me
      by (simp add: pm ok member_follow_count_delete optional_artist_profile_delete
            PartialMember.defs Member.defs del: subscript.simps)
    show "Member_init (JObj (AList.delete ''profileComment'' kvs5)) =
           Inr (me\<lparr>PartialMember.data := JObj (AList.delete ''profileComment'' kvs5),
                 Member.profile_comment := JNull\<rparr>)"
      unfolding Member_init_def me
      by (simp add: pm ok member_follow_count_delete optional_artist_profile_delete
            PartialMember.defs Member.defs del: subscript.simps)
    show "Member_init (JObj (AList.delete ''followCount'' kvs5)) =
           Inr (me\<lparr>PartialMember.data := JObj (AList.delete ''followCount'' kvs5),
                 Member.follow_count := JNull\<rparr>)"
      unfolding Member_init_def me
      by (simp add: pm ok member_follow_count_delete optional_artist_profile_delete
            PartialMember.defs Member.defs del: subscript.simps)
    show "Member_init (JObj (AList.delete ''artistOfficialProfile'' kvs5)) =
           Inr (me\<lparr>PartialMember.data := JObj (AList.delete ''artistOfficialProfile'' kvs5),
                 Member.artist_profile := None\<rparr>)"
      unfolding Member_init_def me
      by (simp add: pm ok member_follow_count_delete optional_artist_profile_delete
            PartialMember.defs Member.defs del: subscript.simps)
  qed
  moreover have ?post
  proof (intro conjI impI)
    assume "PostLike_init C (JObj kvs6) = Inr pl"
    then obtain i b pb u lc cc pa bm lo hfa mo hp tg pt st au co where
      ok: "subscript (JObj kvs6) ''postId'' = Inr i" "subscript (JObj kvs6) ''body'' = Inr b"
        "subscript (JObj kvs6) ''plainBody'' = Inr pb"
        "subscript (JObj kvs6) ''shareUrl'' = Inr u"
        "subscript (JObj kvs6) ''emotionCount'' = Inr lc"
        "subscript (JObj kvs6) ''commentCount'' = Inr cc"
        "subscript (JObj kvs6) ''publishedAt'' = Inr pa"
        "subscript (JObj kvs6) ''bookmarked'' = Inr bm"
        "subscript (JObj kvs6) ''locked'' = Inr lo"
        "subscript (JObj kvs6) ''hideFromArtist'' = Inr hfa"
        "subscript (JObj kvs6) ''membershipOnly'' = Inr mo"
        "subscript (JObj kvs6) ''hasProduct'' = Inr hp"
        "subscript (JObj kvs6) ''tags'' = Inr tg" "subscript (JObj kvs6) ''postType'' = Inr pt"
        "subscript (JObj kvs6) ''sectionType'' = Inr st"
        "bindE (subscript (JObj kvs6) ''author'') PostAuthor_init = Inr au"
        "bindE (subscript (JObj kvs6) ''community'') C = Inr co"
      and pl: "pl = \<lparr>PostLike.data = JObj kvs6, PostLike.id = i, PostLike.body = b,
          PostLike.plain_body = pb, PostLike.url = u, PostLike.like_count = lc,
          PostLike.comment_count = cc, PostLike.published_at = pa,
          PostLike.is_bookmarked = bm, PostLike.is_locked = lo,
          PostLike.is_hidden_from_artist = hfa, PostLike.is_membership_only = mo,
          PostLike.has_product = hp, PostLike.hashtags = tg, PostLike.post_type = pt,
          PostLike.section_type = st, PostLike.author = au, PostLike.community = co,
          PostLike.like_id =
            (case map_of kvs6 ''viewerEmotionId'' of None \<Rightarrow> JNull | Some w \<Rightarrow> w)\<rparr>"
      by (auto simp: PostLike_init_eq_Inr)
    show post: "PostLike_init C (JObj (AList.delete ''viewerEmotionId'' kvs6)) =
           Inr (pl\<lparr>PostLike.data := JObj (AList.delete ''viewerEmotionId'' kvs6),
                 PostLike.like_id := JNull\<rparr>)"
      unfolding PostLike_init_def pl
      by (simp add: ok del: subscript.simps)
    show "Post_init C (JObj (AList.delete ''viewerEmotionId'' kvs6)) =
           Inr (pl\<lparr>PostLike.data := JObj (AList.delete ''viewerEmotionId'' kvs6),
                 PostLike.like_id := JNull\<rparr>)"
      by (simp only: Post_init_def post)
  qed
  moreover have ?count
  proof (intro conjI impI)
    assume "map_of kvs7 ''followCount'' = Some (JObj cnt)" and "map_of cnt ''followerCount'' = None"
    then show fc: "member_follow_count (JObj kvs7) = Inl (KeyError ''followerCount'')"
      by (simp add: member_follow_count_JObj)
    then show "isl (Member_init (JObj kvs7))"
      by (auto simp: isl_iff_no_result Member_init_eq_Inr)
  qed
  moreover have ?image
  proof (intro conjI impI)
    assume "map_of kvs8 ''image'' = Some (JObj im)" and "im \<noteq> []" and "map_of im ''url'' = None"
    then show th: "snippet_thumbnail (JObj kvs8) = Inl (KeyError ''url'')"
      by (simp add: snippet_thumbnail_JObj)
    then show "isl (Snippet_init (JObj kvs8))"
      by (auto simp: isl_iff_no_result Snippet_init_eq_Inr)
  qed
  ultimately show ?thesis
    by (intro conjI)
qed

theorem omitted_optional_key_gives_none_witness:
  "Snippet_init (JObj (AList.delete ''image'' snippet_fields)) =
     Inr (snippet_object\<lparr>Snippet.data := JObj (AList.delete ''image'' snippet_fields),
            Snippet.thumbnail_url := JNull\<rparr>) \<and>
   PartialMember_init (JObj (AList.delete ''profileImageUrl'' member_fields)) =
     Inr (partial_member_object\<lparr>
            PartialMember.data := JObj (AList.delete ''profileImageUrl'' member_fields),
            PartialMember.image_url := JNull\<rparr>) \<and>
   Artist_init (JObj (AList.delete ''profileImageUrl'' member_fields)) =
     Inr (artist_object\<lparr>
            PartialMember.data := JObj (AList.delete ''profileImageUrl'' member_fields),
            PartialMember.image_url := JNull\<rparr>) \<and>
   PostAuthor_init (JObj (AList.delete ''artistOfficialProfile'' member_fields)) =
     Inr (author_object\<lparr>
            PartialMember.data := JObj (AList.delete ''artistOfficialProfile'' member_fields),
            PostAuthor.artist_profile := None\<rparr>) \<and>
   Member_init (JObj (AList.delete ''followCount'' member_fields)) =
     Inr (member_object\<lparr>
            PartialMember.data := JObj (AList.delete ''followCount'' member_fields),
            Member.follow_count := JNull\<rparr>) \<and>
   Post_init raw_community (JObj (AList.delete ''viewerEmotionId'' post_fields)) =
     Inr (post_object\<lparr>PostLike.data := JObj (AList.delete ''viewerEmotionId'' post_fields),
            PostLike.like_id := JNull\<rparr>) \<and>
   isl (Member_init (JObj (AList.update ''followCount'' (JObj []) member_fields))) \<and>
   isl (Snippet_init
     (JObj (AList.update ''image'' (JObj [(''width'', JInt 640)]) snippet_fields)))"
proof -
  have post: "PostLike_init raw_community (JObj post_fields) =
      Inr (post_object\<lparr>PostLike.data := post_payload_no_attachment\<rparr>)"
    using Post_init_no_attachment_example
    by (simp add: Post_init_def post_payload_no_attachment_def)
  have cnt: "map_of (AList.update ''followCount'' (JObj []) member_fields) ''followCount''
      = Some (JObj [])"
    by (simp add: update_conv')
  have im: "map_of (AList.update ''image'' (JObj [(''width'', JInt 640)]) snippet_fields)
      ''image'' = Some (JObj [(''width'', JInt 640)])"
    by (simp add: update_conv')
  from omitted_optional_key_gives_none [where
      ?kvs1.0 = snippet_fields and sn = snippet_object
      and ?kvs2.0 = member_fields and pm = partial_member_object
      and ?kvs3.0 = member_fields and ar = artist_object
      and ?kvs4.0 = member_fields and pa = author_object
      and ?kvs5.0 = member_fields and me = member_object
      and ?kvs6.0 = post_fields and C = raw_community
      and pl = "post_object\<lparr>PostLike.data := post_payload_no_attachment\<rparr>"
      and ?kvs7.0 = "AList.update ''followCount'' (JObj []) member_fields" and cnt = "[]"
      and ?kvs8.0 = "AList.update ''image'' (JObj [(''width'', JInt 640)]) snippet_fields"
      and im = "[(''width'', JInt 640)]"]
    post cnt im
    Snippet_init_example PartialMember_init_example Artist_init_example
    PostAuthor_init_example Member_init_example
  show ?thesis
    by (simp add: snippet_payload_def member_payload_def post_payload_no_attachment_def)
qed

text \<open>The example member payload with \<^verbatim>\<open>followCount\<close> replaced by the empty mapping, and the
  example snippet payload with \<^verbatim>\<open>image\<close> replaced by a mapping without \<^verbatim>\<open>url\<close>: the nested
  value is left out, its enclosing sub-object is not, and the construction raises
  \<^verbatim>\<open>KeyError\<close>.\<close>

theorem nested_value_omitted_counterexample:
  "Member_init (JObj (AList.update ''followCount'' (JObj []) member_fields))
     = Inl (KeyError ''followerCount'') \<and>
   Snippet_init (JObj (AList.update ''image'' (JObj [(''width'', JInt 640)]) snippet_fields))
     = Inl (KeyError ''url'')"
  by (simp add: Member_init_def PartialMember_init_def member_follow_count_def subscript2_def
        Snippet_init_def snippet_thumbnail_def member_fields_def snippet_fields_def)

end
